theory Spec2Isabelle
  imports Main
begin

section \<open>Data model\<close>

text \<open>
  The signaling record of \<^verbatim>\<open>services/callService.ts\<close> (interface \<^verbatim>\<open>CallData\<close>), the local
  session of \<^verbatim>\<open>contexts/CallStateContext.tsx\<close> (interface \<^verbatim>\<open>CallState\<close>) and the history
  entry \<^verbatim>\<open>CallLog\<close> of the types module. Session descriptions and connectivity candidates
  are opaque payloads of the transport layer. Field names follow the source; the fields of
  \<^verbatim>\<open>CallState\<close> and \<^verbatim>\<open>CallLog\<close> carry a prefix because HOL record fields share one name
  space.
\<close>

type_synonym candidate = string

record SessionDescription =
  sdp_type :: string
  sdp :: string

datatype call_status = Ringing | Accepted | Declined | Ended

record CallData =
  call_id :: string
  callerId :: string
  receiverId :: string
  callerName :: string
  receiverName :: string
  callerPhoto :: string
  receiverPhoto :: string
  status :: call_status
  timestamp :: nat
  offer :: "SessionDescription option"
  answer :: "SessionDescription option"
  callerCandidates :: "candidate list"
  receiverCandidates :: "candidate list"
  duration :: "nat option"

datatype session_status = Connecting | Connected | RingingOut

record CallState =
  peerId :: string
  peerName :: string
  peerPhoto :: string
  cs_duration :: nat
  isMuted :: bool
  cs_status :: session_status

datatype log_status = Completed | Missed | LogDeclined | Failed

datatype call_type = Voice | Video

record CallLog =
  log_id :: nat
  log_callerId :: string
  log_receiverId :: string
  log_callerName :: string
  log_receiverName :: string
  log_callerPhoto :: string
  log_receiverPhoto :: string
  log_timestamp :: nat
  log_duration :: nat
  log_status :: log_status
  log_type :: call_type

record UserProfile =
  name :: string
  photoURL :: "string option"

text \<open>
  Toasts are those of the library \<^verbatim>\<open>react-hot-toast\<close>, whose \<^verbatim>\<open>toast\<close> has \<^verbatim>\<open>success\<close> and
  \<^verbatim>\<open>error\<close> and no \<^verbatim>\<open>info\<close>: the call \<^verbatim>\<open>toast.info(...)\<close> throws a \<^verbatim>\<open>TypeError\<close> and shows
  nothing.
\<close>

datatype toast = ToastError string | ToastSuccess string

datatype js_error = TypeError string

definition toastInfoError :: js_error where
  "toastInfoError = TypeError ''toast.info is not a function''"

section \<open>External outcomes\<close>

text \<open>
  What the browser and the document store answer during one event handler: the outcome of
  the microphone request, of the negotiation primitives of the peer connection, whether
  the store can be reached, the id it gives a new document, the clocks, and the message of
  the error a failing primitive throws.
\<close>

record MediaStream =
  stream_id :: nat
  audioTrackCount :: nat

datatype mic_outcome =
    InsecureContext
  | Unsupported
  | GetUserMediaRejected string string
  | Granted MediaStream

record env =
  micOutcome :: mic_outcome
  createOfferResult :: "SessionDescription option"
  createAnswerResult :: "SessionDescription option"
  setLocalDescriptionOk :: bool
  setRemoteDescriptionOk :: bool
  storeUp :: bool
  newDocId :: string
  serverTime :: nat
  now :: nat
  errorMessage :: string

section \<open>The document store and \<^verbatim>\<open>CallService\<close>\<close>

datatype store_error = StoreUnavailable | NotFound

type_synonym store = "string \<rightharpoonup> CallData"

text \<open>
  \<^verbatim>\<open>updateDoc\<close> of the store: it merges the given fields into an existing document and
  rejects when the store cannot be reached or the document does not exist.
\<close>

definition updateDoc :: "env \<Rightarrow> store \<Rightarrow> string \<Rightarrow> (CallData \<Rightarrow> CallData) \<Rightarrow> store_error + store" where
  "updateDoc e st cid f =
     (if \<not> storeUp e then Inl StoreUnavailable
      else case st cid of
             None \<Rightarrow> Inl NotFound
           | Some d \<Rightarrow> Inr (st(cid \<mapsto> f d)))"

text \<open>
  \<^verbatim>\<open>CallService.createCall\<close>: \<^verbatim>\<open>addDoc\<close> with the server's timestamp and two empty candidate
  arrays; the document id is the one the store assigns. Errors are rethrown. A stored record
  carries its document id in \<open>call_id\<close>, the way the subscriptions of \<^verbatim>\<open>CallService\<close> hand
  it out (\<^verbatim>\<open>id: doc.id\<close>).
\<close>

definition createCall :: "env \<Rightarrow> CallData \<Rightarrow> store \<Rightarrow> store_error + (string \<times> store)" where
  "createCall e callData st =
     (if \<not> storeUp e then Inl StoreUnavailable
      else Inr (newDocId e,
                st(newDocId e \<mapsto> callData\<lparr>call_id := newDocId e, timestamp := serverTime e,
                                           callerCandidates := [], receiverCandidates := []\<rparr>)))"

definition svc_acceptCall :: "env \<Rightarrow> string \<Rightarrow> SessionDescription \<Rightarrow> store \<Rightarrow> store_error + store" where
  "svc_acceptCall e cid ans st =
     updateDoc e st cid (\<lambda>d. d\<lparr>status := Accepted,
                               answer := Some \<lparr>sdp_type = sdp_type ans, sdp = sdp ans\<rparr>\<rparr>)"

definition svc_declineCall :: "env \<Rightarrow> string \<Rightarrow> store \<Rightarrow> store_error + store" where
  "svc_declineCall e cid st = updateDoc e st cid (\<lambda>d. d\<lparr>status := Declined\<rparr>)"

definition svc_endCall :: "env \<Rightarrow> string \<Rightarrow> nat \<Rightarrow> store \<Rightarrow> store_error + store" where
  "svc_endCall e cid dur st = updateDoc e st cid (\<lambda>d. d\<lparr>status := Ended, duration := Some dur\<rparr>)"

section \<open>The local client\<close>

text \<open>
  A peer connection as the code drives it. \<^verbatim>\<open>createPeerConnection\<close> installs an
  \<^verbatim>\<open>onicecandidate\<close> handler that closes over the VALUES of its first two arguments
  (\<open>pc_callDoc\<close>, \<open>pc_isCaller\<close>). \<open>appliedCandidates\<close> are the remote candidates given to the
  connection. \<open>signalingState\<close> is the browser's: a new connection is stable, and a
  description is accepted only in the state the offer and answer exchange allows.
\<close>

datatype signaling_state = Stable | HaveLocalOffer | HaveRemoteOffer

datatype connection_state =
  ConnNew | ConnConnecting | ConnConnected | ConnDisconnected | ConnFailed | ConnClosed

record PeerConnection =
  pc_callDoc :: "string option"
  pc_isCaller :: bool
  pc_closed :: bool
  pc_trackCount :: nat
  signalingState :: signaling_state
  localDescription :: "SessionDescription option"
  remoteDescription :: "SessionDescription option"
  appliedCandidates :: "candidate list"

text \<open>
  The handlers of \<^verbatim>\<open>CallProvider\<close> are closures of one render of the component: the
  values they read from React state (\<^verbatim>\<open>isInCall\<close>, \<^verbatim>\<open>currentCall\<close>, \<^verbatim>\<open>incomingCall\<close>,
  \<^verbatim>\<open>callDuration\<close>, \<^verbatim>\<open>currentUser\<close>, \<^verbatim>\<open>userProfile\<close>) are those of that render, while refs
  (\<^verbatim>\<open>x.current\<close>) and state setters act on the live state.

  Every handler is a function from the state before it to the state after it. An
  \<^verbatim>\<open>async\<close> handler runs to its end in one step, the answers of the browser and the store
  being those of the \<open>env\<close> it is given; an \<^verbatim>\<open>async\<close> function called without \<^verbatim>\<open>await\<close> runs
  where it is called. Two suspensions are modelled apart: the two store requests of
  \<^verbatim>\<open>addIceCandidate\<close>, and the awaited store write of \<^verbatim>\<open>endCall\<close>, which splits it into
  the part before and the part after. No caller awaits the promise of \<^verbatim>\<open>endCall\<close>; when
  it is rejected, the error is recorded in \<open>rejections\<close>. Console output, the browser
  notification of an incoming call and the playing of remote audio are left out.
\<close>

record render =
  r_currentUser :: "string option"
  r_userProfile :: "UserProfile option"
  r_isInCall :: bool
  r_currentCall :: "CallState option"
  r_incomingCall :: "CallData option"
  r_callDuration :: nat

text \<open>
  The callback given to \<^verbatim>\<open>CallService.subscribeToCall\<close> in \<^verbatim>\<open>initiateCall\<close>, and the
  callback given to \<^verbatim>\<open>setTimeout\<close> there: each keeps the call id, the closure's render
  and the peer connection (an index into \<open>pcs\<close>) or the unsubscribe handle it captured.
\<close>

record call_subscription =
  sub_handle :: nat
  sub_callId :: string
  sub_render :: render
  sub_pc :: nat

record ring_timeout =
  to_handle :: nat
  to_callId :: string
  to_render :: render
  to_sub :: nat

record world =
  currentUser :: "string option"
  userProfile :: "UserProfile option"
  isInCall :: bool
  currentCall :: "CallState option"
  callHistory :: "CallLog list"
  incomingCall :: "CallData option"
  callDuration :: nat
  intervalRef :: "nat option"
  intervals :: "nat list"
  peerConnectionRef :: "nat option"
  pcs :: "PeerConnection list"
  localStreamRef :: "MediaStream option"
  remoteAudioSrc :: "nat option"
  currentCallDocRef :: "string option"
  callTimeoutRef :: "nat option"
  isCallerRef :: bool
  callListenerRef :: "nat option"
  subscriptions :: "call_subscription list"
  timeouts :: "ring_timeout list"
  autoDeclines :: "string list"
  nextHandle :: nat
  store :: store
  toasts :: "toast list"
  rejections :: "js_error list"

text \<open>The closure of the render that shows the live state.\<close>

definition render_of :: "world \<Rightarrow> render" where
  "render_of w =
     \<lparr>r_currentUser = currentUser w, r_userProfile = userProfile w, r_isInCall = isInCall w,
      r_currentCall = currentCall w, r_incomingCall = incomingCall w,
      r_callDuration = callDuration w\<rparr>"

definition addToast :: "toast \<Rightarrow> world \<Rightarrow> world" where
  "addToast t w = w\<lparr>toasts := toasts w @ [t]\<rparr>"

definition addToasts :: "toast list \<Rightarrow> world \<Rightarrow> world" where
  "addToasts ts w = w\<lparr>toasts := toasts w @ ts\<rparr>"

definition rejected :: "js_error \<Rightarrow> world \<Rightarrow> world" where
  "rejected err w = w\<lparr>rejections := rejections w @ [err]\<rparr>"

subsection \<open>\<^verbatim>\<open>useCallTimer\<close>\<close>

text \<open>
  \<^verbatim>\<open>setInterval\<close> hands out a fresh handle and the interval stays live until it is cleared;
  \<open>intervals\<close> are the live ones. A second passing runs every live interval callback once.
\<close>

definition startTimer :: "world \<Rightarrow> world" where
  "startTimer w =
     w\<lparr>callDuration := 0, intervalRef := Some (nextHandle w),
       intervals := intervals w @ [nextHandle w], nextHandle := Suc (nextHandle w)\<rparr>"

definition stopTimer :: "world \<Rightarrow> world" where
  "stopTimer w =
     (case intervalRef w of
        None \<Rightarrow> w
      | Some h \<Rightarrow> w\<lparr>intervals := removeAll h (intervals w), intervalRef := None\<rparr>)"

definition resetTimer :: "world \<Rightarrow> world" where
  "resetTimer w = (stopTimer w)\<lparr>callDuration := 0\<rparr>"

definition tick :: "world \<Rightarrow> world" where
  "tick w = w\<lparr>callDuration := callDuration w + length (intervals w)\<rparr>"

subsection \<open>\<^verbatim>\<open>useWebRTC\<close>\<close>

definition micErrorToast :: "string \<Rightarrow> string \<Rightarrow> toast" where
  "micErrorToast ename msg =
     (if ename = ''NotAllowedError'' then
        ToastError ''Microphone access denied. Please allow microphone access and try again.''
      else if ename = ''NotFoundError'' then
        ToastError ''No microphone found. Please connect a microphone and try again.''
      else if ename = ''NotReadableError'' then
        ToastError ''Microphone is being used by another application.''
      else if ename = ''OverconstrainedError'' then
        ToastError ''Microphone does not meet the required specifications.''
      else if ename = ''SecurityError'' then
        ToastError ''Microphone access blocked due to security restrictions.''
      else if ename = ''AbortError'' then
        ToastError ''Microphone access was aborted.''
      else ToastError (''Could not access microphone: '' @ (if msg = [] then ''Unknown error'' else msg)))"

text \<open>
  \<^verbatim>\<open>requestMicrophoneAccess\<close> never throws: every failure is a toast and the result
  \<^verbatim>\<open>null\<close>.
\<close>

definition requestMicrophoneAccess :: "env \<Rightarrow> toast list \<times> MediaStream option" where
  "requestMicrophoneAccess e =
     (case micOutcome e of
        InsecureContext \<Rightarrow> ([ToastError ''Voice calls require a secure connection (HTTPS)''], None)
      | Unsupported \<Rightarrow> ([ToastError ''Your browser does not support voice calls''], None)
      | GetUserMediaRejected ename msg \<Rightarrow> ([micErrorToast ename msg], None)
      | Granted s \<Rightarrow>
          (if audioTrackCount s = 0
           then ([micErrorToast ''Error'' ''No audio tracks found in stream''], None)
           else ([], Some s)))"

definition update_pc :: "nat \<Rightarrow> (PeerConnection \<Rightarrow> PeerConnection) \<Rightarrow> world \<Rightarrow> world" where
  "update_pc i f w = w\<lparr>pcs := (pcs w)[i := f (pcs w ! i)]\<rparr>"

definition createPeerConnection :: "string option \<Rightarrow> bool \<Rightarrow> world \<Rightarrow> nat \<times> world" where
  "createPeerConnection callDoc isCaller w =
     (length (pcs w),
      w\<lparr>pcs := pcs w @ [\<lparr>pc_callDoc = callDoc, pc_isCaller = isCaller, pc_closed = False,
                          pc_trackCount = 0, signalingState = Stable, localDescription = None,
                          remoteDescription = None, appliedCandidates = []\<rparr>],
        peerConnectionRef := Some (length (pcs w))\<rparr>)"

text \<open>
  \<^verbatim>\<open>setLocalDescription\<close> and \<^verbatim>\<open>setRemoteDescription\<close> of the browser's connection. They
  reject (the result \<open>None\<close>) on a closed connection, on a description the browser cannot
  take (\<open>setLocalDescriptionOk\<close>, \<open>setRemoteDescriptionOk\<close>) and in the wrong signalling state:
  a local offer moves a connection to \<^verbatim>\<open>have-local-offer\<close>, from where a remote answer
  brings it back to \<^verbatim>\<open>stable\<close>; a remote offer moves it to \<^verbatim>\<open>have-remote-offer\<close>, from where
  a local answer brings it back to \<^verbatim>\<open>stable\<close>; an answer is rejected in every other state.
  Provisional answers and rollback, which the code never uses, are rejected.
\<close>

definition localTransition :: "PeerConnection \<Rightarrow> SessionDescription \<Rightarrow> signaling_state option" where
  "localTransition pc d =
     (if pc_closed pc then None
      else if sdp_type d = ''offer'' then
        (if signalingState pc = HaveRemoteOffer then None else Some HaveLocalOffer)
      else if sdp_type d = ''answer'' then
        (if signalingState pc = HaveRemoteOffer then Some Stable else None)
      else None)"

definition remoteTransition :: "PeerConnection \<Rightarrow> SessionDescription \<Rightarrow> signaling_state option" where
  "remoteTransition pc d =
     (if pc_closed pc then None
      else if sdp_type d = ''offer'' then
        (if signalingState pc = HaveLocalOffer then None else Some HaveRemoteOffer)
      else if sdp_type d = ''answer'' then
        (if signalingState pc = HaveLocalOffer then Some Stable else None)
      else None)"

definition setLocalDescription :: "env \<Rightarrow> nat \<Rightarrow> SessionDescription \<Rightarrow> world \<Rightarrow> world option" where
  "setLocalDescription e i d w =
     (if i < length (pcs w) \<and> setLocalDescriptionOk e
      then (case localTransition (pcs w ! i) d of
              None \<Rightarrow> None
            | Some st \<Rightarrow>
                Some (update_pc i (\<lambda>pc. pc\<lparr>localDescription := Some d, signalingState := st\<rparr>) w))
      else None)"

definition setRemoteDescription :: "env \<Rightarrow> nat \<Rightarrow> SessionDescription \<Rightarrow> world \<Rightarrow> world option" where
  "setRemoteDescription e i d w =
     (if i < length (pcs w) \<and> setRemoteDescriptionOk e
      then (case remoteTransition (pcs w ! i) d of
              None \<Rightarrow> None
            | Some st \<Rightarrow>
                Some (update_pc i (\<lambda>pc. pc\<lparr>remoteDescription := Some d, signalingState := st\<rparr>) w))
      else None)"

text \<open>
  \<^verbatim>\<open>addIceCandidate\<close> reads the document (\<^verbatim>\<open>getDocs\<close>) and then writes the whole array of
  its party back with the candidate appended (\<^verbatim>\<open>updateDoc\<close>): two requests to the store.
  Every error is caught and logged.
\<close>

definition candidateField :: "bool \<Rightarrow> CallData \<Rightarrow> candidate list" where
  "candidateField isCallerCandidate d =
     (if isCallerCandidate then callerCandidates d else receiverCandidates d)"

definition setCandidateField :: "bool \<Rightarrow> candidate list \<Rightarrow> CallData \<Rightarrow> CallData" where
  "setCandidateField isCallerCandidate cs d =
     (if isCallerCandidate then d\<lparr>callerCandidates := cs\<rparr> else d\<lparr>receiverCandidates := cs\<rparr>)"

definition readCandidates :: "env \<Rightarrow> store \<Rightarrow> string \<Rightarrow> bool \<Rightarrow> store_error + candidate list option" where
  "readCandidates e st cid isCallerCandidate =
     (if \<not> storeUp e then Inl StoreUnavailable
      else Inr (map_option (candidateField isCallerCandidate) (st cid)))"

definition writeCandidates :: "env \<Rightarrow> store \<Rightarrow> string \<Rightarrow> bool \<Rightarrow> candidate list \<Rightarrow> candidate \<Rightarrow> store_error + store" where
  "writeCandidates e st cid isCallerCandidate existingCandidates c =
     updateDoc e st cid (setCandidateField isCallerCandidate (existingCandidates @ [c]))"

definition addIceCandidate :: "env \<Rightarrow> string \<Rightarrow> candidate \<Rightarrow> bool \<Rightarrow> store \<Rightarrow> store" where
  "addIceCandidate e cid c isCallerCandidate st =
     (case readCandidates e st cid isCallerCandidate of
        Inl _ \<Rightarrow> st
      | Inr None \<Rightarrow> st
      | Inr (Some existingCandidates) \<Rightarrow>
          (case writeCandidates e st cid isCallerCandidate existingCandidates c of
             Inl _ \<Rightarrow> st
           | Inr st' \<Rightarrow> st'))"

text \<open>
  The \<^verbatim>\<open>onicecandidate\<close> handler of a connection: \<^verbatim>\<open>event.candidate && currentCallDocRef\<close>,
  where the second operand is the string (or \<^verbatim>\<open>null\<close>) the connection was created with; the
  empty string is falsy.
\<close>

definition onicecandidate :: "env \<Rightarrow> PeerConnection \<Rightarrow> candidate option \<Rightarrow> world \<Rightarrow> world" where
  "onicecandidate e pc ev w =
     (case ev of
        None \<Rightarrow> w
      | Some c \<Rightarrow>
          (case pc_callDoc pc of
             None \<Rightarrow> w
           | Some cid \<Rightarrow>
               (if cid = [] then w
                else w\<lparr>store := addIceCandidate e cid c (pc_isCaller pc) (store w)\<rparr>)))"

text \<open>
  \<^verbatim>\<open>cleanup\<close>: closes the connection the ref holds, stops the tracks of the local stream and
  detaches the remote audio; each ref is set to \<^verbatim>\<open>null\<close>.
\<close>

definition cleanup :: "world \<Rightarrow> world" where
  "cleanup w =
     (let w1 = (case peerConnectionRef w of
                  None \<Rightarrow> w
                | Some i \<Rightarrow> (update_pc i (\<lambda>pc. pc\<lparr>pc_closed := True\<rparr>) w)\<lparr>peerConnectionRef := None\<rparr>)
      in w1\<lparr>localStreamRef := None, remoteAudioSrc := None\<rparr>)"

subsection \<open>\<^verbatim>\<open>CallProvider\<close>: ending a call\<close>

definition photoOrEmpty :: "UserProfile \<Rightarrow> string" where
  "photoOrEmpty p = (case photoURL p of None \<Rightarrow> [] | Some u \<Rightarrow> u)"

text \<open>The \<^verbatim>\<open>CallLog\<close> literal of \<^verbatim>\<open>endCall\<close>; its status is the constant \<^verbatim>\<open>'completed'\<close>.\<close>

definition mkCallLog :: "bool \<Rightarrow> string \<Rightarrow> UserProfile \<Rightarrow> CallState \<Rightarrow> nat \<Rightarrow> nat \<Rightarrow> CallLog" where
  "mkCallLog isCaller uid prof cc dur t =
     \<lparr>log_id = t,
      log_callerId = (if isCaller then uid else peerId cc),
      log_receiverId = (if isCaller then peerId cc else uid),
      log_callerName = (if isCaller then name prof else peerName cc),
      log_receiverName = (if isCaller then peerName cc else name prof),
      log_callerPhoto = (if isCaller then photoOrEmpty prof else peerPhoto cc),
      log_receiverPhoto = (if isCaller then peerPhoto cc else photoOrEmpty prof),
      log_timestamp = t,
      log_duration = dur,
      log_status = Completed,
      log_type = Voice\<rparr>"

definition addToCallHistory :: "CallLog \<Rightarrow> world \<Rightarrow> world" where
  "addToCallHistory l w = w\<lparr>callHistory := l # callHistory w\<rparr>"

definition unsubscribe :: "nat \<Rightarrow> world \<Rightarrow> world" where
  "unsubscribe h w = w\<lparr>subscriptions := filter (\<lambda>s. sub_handle s \<noteq> h) (subscriptions w)\<rparr>"

definition clearCallTimeout :: "world \<Rightarrow> world" where
  "clearCallTimeout w =
     (case callTimeoutRef w of
        None \<Rightarrow> w
      | Some h \<Rightarrow> w\<lparr>timeouts := filter (\<lambda>t. to_handle t \<noteq> h) (timeouts w), callTimeoutRef := None\<rparr>)"

definition callListenerOff :: "world \<Rightarrow> world" where
  "callListenerOff w =
     (case callListenerRef w of
        None \<Rightarrow> w
      | Some h \<Rightarrow> (unsubscribe h w)\<lparr>callListenerRef := None\<rparr>)"

text \<open>
  The store write of \<^verbatim>\<open>endCall\<close>: made when \<^verbatim>\<open>currentCallDocRef.current\<close> is truthy, with
  the closure's \<^verbatim>\<open>callDuration\<close>; a rejected write is caught and logged.
\<close>

definition markEnded :: "render \<Rightarrow> env \<Rightarrow> world \<Rightarrow> world" where
  "markEnded r e w =
     (case currentCallDocRef w of
        None \<Rightarrow> w
      | Some cid \<Rightarrow>
          (if cid = [] then w
           else (case svc_endCall e cid (r_callDuration r) (store w) of
                   Inl _ \<Rightarrow> w
                 | Inr st' \<Rightarrow> w\<lparr>store := st'\<rparr>)))"

text \<open>
  The history entry of \<^verbatim>\<open>endCall\<close>: appended when the closure's \<^verbatim>\<open>currentCall\<close>,
  \<^verbatim>\<open>currentUser\<close> and \<^verbatim>\<open>userProfile\<close> are all present.
\<close>

definition saveHistory :: "render \<Rightarrow> env \<Rightarrow> world \<Rightarrow> world" where
  "saveHistory r e w =
     (case r_currentCall r of
        None \<Rightarrow> w
      | Some cc \<Rightarrow>
          (case r_currentUser r of
             None \<Rightarrow> w
           | Some uid \<Rightarrow>
               (case r_userProfile r of
                  None \<Rightarrow> w
                | Some prof \<Rightarrow>
                    addToCallHistory (mkCallLog (isCallerRef w) uid prof cc (r_callDuration r) (now e)) w)))"

definition resetState :: "world \<Rightarrow> world" where
  "resetState w =
     (resetTimer (w\<lparr>isInCall := False, currentCall := None\<rparr>))\<lparr>currentCallDocRef := None, isCallerRef := False\<rparr>"

text \<open>
  \<^verbatim>\<open>endCall\<close> up to the point where it awaits its store write: the timeout is cleared, the
  timer stopped, the listener removed, the transport cleaned up and the write sent. Without
  a call document there is no write and no suspension.
\<close>

definition endCallBegin :: "render \<Rightarrow> env \<Rightarrow> world \<Rightarrow> world" where
  "endCallBegin r e w = markEnded r e (cleanup (callListenerOff (stopTimer (clearCallTimeout w))))"

text \<open>
  \<^verbatim>\<open>endCall\<close> from there: the history entry, the reset of state and refs, and the last
  statement \<^verbatim>\<open>toast.info('Call ended')\<close>, which throws, so that the promise of \<^verbatim>\<open>endCall\<close>
  is rejected after everything else was done.
\<close>

definition endCallFinish :: "render \<Rightarrow> env \<Rightarrow> world \<Rightarrow> world" where
  "endCallFinish r e w = rejected toastInfoError (resetState (saveHistory r e w))"

definition endCall :: "render \<Rightarrow> env \<Rightarrow> world \<Rightarrow> world" where
  "endCall r e w = endCallFinish r e (endCallBegin r e w)"

subsection \<open>\<^verbatim>\<open>CallProvider\<close>: placing a call\<close>

definition connectingSession :: "string \<Rightarrow> string \<Rightarrow> string \<Rightarrow> CallState" where
  "connectingSession pid pname pphoto =
     \<lparr>peerId = pid, peerName = pname, peerPhoto = pphoto, cs_duration = 0, isMuted = False,
      cs_status = Connecting\<rparr>"

definition setSessionStatus :: "session_status \<Rightarrow> world \<Rightarrow> world" where
  "setSessionStatus s w = w\<lparr>currentCall := map_option (\<lambda>prev. prev\<lparr>cs_status := s\<rparr>) (currentCall w)\<rparr>"

text \<open>The \<^verbatim>\<open>catch\<close> block of \<^verbatim>\<open>initiateCall\<close>.\<close>

definition initiateFailed :: "render \<Rightarrow> env \<Rightarrow> world \<Rightarrow> world" where
  "initiateFailed r e w = endCall r e (addToast (ToastError (''Failed to initiate call: '' @ errorMessage e)) w)"

definition newCallData :: "string \<Rightarrow> UserProfile \<Rightarrow> string \<Rightarrow> string \<Rightarrow> string \<Rightarrow> SessionDescription \<Rightarrow> CallData" where
  "newCallData uid prof pid pname pphoto off =
     \<lparr>call_id = [], callerId = uid, receiverId = pid, callerName = name prof, receiverName = pname,
      callerPhoto = photoOrEmpty prof, receiverPhoto = pphoto, status = Ringing, timestamp = 0,
      offer = Some \<lparr>sdp_type = sdp_type off, sdp = sdp off\<rparr>, answer = None,
      callerCandidates = [], receiverCandidates = [], duration = None\<rparr>"

text \<open>
  The tail of \<^verbatim>\<open>initiateCall\<close> once the call document exists: the ref takes the id, the
  session becomes \<^verbatim>\<open>ringing\<close>, the document is subscribed to and the 60 second timeout is
  set. Both callbacks are closures of the render \<open>r\<close> that \<^verbatim>\<open>initiateCall\<close> belongs to.
\<close>

definition callPlaced :: "render \<Rightarrow> string \<Rightarrow> nat \<Rightarrow> string \<Rightarrow> world \<Rightarrow> world" where
  "callPlaced r pname i cid w =
     (let w1 = addToast (ToastSuccess (''Calling '' @ pname @ ''...''))
                 (setSessionStatus RingingOut (w\<lparr>currentCallDocRef := Some cid\<rparr>));
          h = nextHandle w1;
          w2 = w1\<lparr>subscriptions := subscriptions w1 @
                      [\<lparr>sub_handle = h, sub_callId = cid, sub_render = r, sub_pc = i\<rparr>],
                  callListenerRef := Some h, nextHandle := Suc h\<rparr>;
          h2 = nextHandle w2
      in w2\<lparr>timeouts := timeouts w2 @
                 [\<lparr>to_handle = h2, to_callId = cid, to_render = r, to_sub = h\<rparr>],
             callTimeoutRef := Some h2, nextHandle := Suc h2\<rparr>)"

text \<open>
  \<^verbatim>\<open>initiateCall\<close> after the microphone was granted: the connection is created with the
  current VALUE of \<^verbatim>\<open>currentCallDocRef.current\<close>, the offer is made and set, the document
  is created.
\<close>

definition negotiateOffer :: "render \<Rightarrow> env \<Rightarrow> string \<Rightarrow> UserProfile \<Rightarrow> string \<Rightarrow> string \<Rightarrow> string \<Rightarrow> MediaStream \<Rightarrow> world \<Rightarrow> world" where
  "negotiateOffer r e uid prof pid pname pphoto stream w =
     (case createPeerConnection (currentCallDocRef w) (isCallerRef w) (w\<lparr>localStreamRef := Some stream\<rparr>) of
        (i, w1) \<Rightarrow>
          (let w2 = update_pc i (\<lambda>pc. pc\<lparr>pc_trackCount := audioTrackCount stream\<rparr>) w1 in
           case createOfferResult e of
             None \<Rightarrow> initiateFailed r e w2
           | Some off \<Rightarrow>
               (case setLocalDescription e i off w2 of
                  None \<Rightarrow> initiateFailed r e w2
                | Some w3 \<Rightarrow>
                    (case createCall e (newCallData uid prof pid pname pphoto off) (store w3) of
                       Inl _ \<Rightarrow> initiateFailed r e w3
                     | Inr (cid, st') \<Rightarrow> callPlaced r pname i cid (w3\<lparr>store := st'\<rparr>)))))"

definition initiateCall :: "render \<Rightarrow> env \<Rightarrow> string \<Rightarrow> string \<Rightarrow> string \<Rightarrow> world \<Rightarrow> world" where
  "initiateCall r e pid pname pphoto w =
     (case r_currentUser r of
        None \<Rightarrow> addToast (ToastError ''Please log in to make calls'') w
      | Some uid \<Rightarrow>
          (case r_userProfile r of
             None \<Rightarrow> addToast (ToastError ''Please log in to make calls'') w
           | Some prof \<Rightarrow>
               (if r_isInCall r \<or> r_currentCall r \<noteq> None
                then addToast (ToastError ''Already in a call'') w
                else
                  (let w1 = w\<lparr>isCallerRef := True,
                              currentCall := Some (connectingSession pid pname pphoto)\<rparr> in
                   case requestMicrophoneAccess e of
                     (ts, None) \<Rightarrow> (addToasts ts w1)\<lparr>currentCall := None\<rparr>
                   | (ts, Some stream) \<Rightarrow>
                       negotiateOffer r e uid prof pid pname pphoto stream (addToasts ts w1)))))"

text \<open>
  The callback of the caller's subscription (the arrow function given to
  \<^verbatim>\<open>CallService.subscribeToCall\<close>). Its \<^verbatim>\<open>endCall\<close> is the one of the render \<open>sub_render\<close>;
  its \<^verbatim>\<open>peerConnection\<close> is the connection \<^verbatim>\<open>initiateCall\<close> created. It reads \<^verbatim>\<open>status\<close>
  and \<^verbatim>\<open>answer\<close> of the snapshot and nothing else. \<open>applyAnswer\<close> is its \<^verbatim>\<open>try\<close> block with the
  \<^verbatim>\<open>catch\<close>; the second branch is taken when the status is \<^verbatim>\<open>accepted\<close> and an answer is
  present.
\<close>

definition applyAnswer :: "env \<Rightarrow> call_subscription \<Rightarrow> SessionDescription \<Rightarrow> world \<Rightarrow> world" where
  "applyAnswer e sub ans w =
     (case setRemoteDescription e (sub_pc sub) ans w of
        Some w' \<Rightarrow> setSessionStatus Connected (startTimer w')
      | None \<Rightarrow> endCall (sub_render sub) e (addToast (ToastError ''Failed to establish connection'') w))"

definition onCallSnapshot :: "env \<Rightarrow> call_subscription \<Rightarrow> CallData option \<Rightarrow> world \<Rightarrow> world" where
  "onCallSnapshot e sub snapshot w =
     (case snapshot of
        None \<Rightarrow> w
      | Some callData \<Rightarrow>
          (if status callData = Declined then
             unsubscribe (sub_handle sub)
               (endCall (sub_render sub) e (addToast (ToastError ''Call declined'') w))
           else
             (case (if status callData = Accepted then answer callData else None) of
                Some ans \<Rightarrow> applyAnswer e sub ans w
              | None \<Rightarrow>
                  (if status callData = Ended then
                     unsubscribe (sub_handle sub) (endCall (sub_render sub) e w)
                   else w))))"

text \<open>The store delivers a snapshot to a subscription that is still open.\<close>

definition deliverCallSnapshot :: "env \<Rightarrow> nat \<Rightarrow> CallData option \<Rightarrow> world \<Rightarrow> world" where
  "deliverCallSnapshot e h snapshot w =
     (case find (\<lambda>s. sub_handle s = h) (subscriptions w) of
        None \<Rightarrow> w
      | Some sub \<Rightarrow> onCallSnapshot e sub snapshot w)"

text \<open>
  The callback of the 60 second timeout of \<^verbatim>\<open>initiateCall\<close>:
  \<^verbatim>\<open>currentCallDocRef.current === callId && currentCall?.status === 'ringing'\<close>, where
  \<^verbatim>\<open>currentCall\<close> is the constant of the render \<^verbatim>\<open>initiateCall\<close> was called from.
\<close>

definition onRingTimeout :: "env \<Rightarrow> ring_timeout \<Rightarrow> world \<Rightarrow> world" where
  "onRingTimeout e t w =
     (if currentCallDocRef w = Some (to_callId t)
         \<and> map_option cs_status (r_currentCall (to_render t)) = Some RingingOut
      then unsubscribe (to_sub t)
             (addToast (ToastError ''Call timeout - no answer'') (endCall (to_render t) e w))
      else w)"

text \<open>A pending timeout fires: it leaves the pending ones and its callback runs.\<close>

definition fireTimeout :: "env \<Rightarrow> nat \<Rightarrow> world \<Rightarrow> world" where
  "fireTimeout e h w =
     (case find (\<lambda>t. to_handle t = h) (timeouts w) of
        None \<Rightarrow> w
      | Some t \<Rightarrow> onRingTimeout e t (w\<lparr>timeouts := filter (\<lambda>t. to_handle t \<noteq> h) (timeouts w)\<rparr>))"

text \<open>
  The handler of the connection's state changes, a closure of the render the connection
  was created in: \<^verbatim>\<open>connected\<close> marks the session connected and sets \<^verbatim>\<open>isInCall\<close>,
  \<^verbatim>\<open>failed\<close> ends the call, the other states are logged.
\<close>

definition handleConnectionStateChange :: "render \<Rightarrow> env \<Rightarrow> connection_state \<Rightarrow> world \<Rightarrow> world" where
  "handleConnectionStateChange r e st w =
     (case st of
        ConnConnected \<Rightarrow> (setSessionStatus Connected w)\<lparr>isInCall := True\<rparr>
      | ConnFailed \<Rightarrow> endCall r e (addToast (ToastError ''Call connection failed'') w)
      | ConnNew \<Rightarrow> w
      | ConnConnecting \<Rightarrow> w
      | ConnDisconnected \<Rightarrow> w
      | ConnClosed \<Rightarrow> w)"

subsection \<open>\<^verbatim>\<open>CallProvider\<close>: answering a call\<close>

text \<open>
  \<^verbatim>\<open>declineCall\<close>: its \<^verbatim>\<open>toast.info('Call declined')\<close> throws inside the \<^verbatim>\<open>try\<close>, after the
  write and after the surface was cleared, and the \<^verbatim>\<open>catch\<close> logs it.
\<close>

definition declineCall :: "render \<Rightarrow> env \<Rightarrow> world \<Rightarrow> world" where
  "declineCall r e w =
     (case r_incomingCall r of
        None \<Rightarrow> w
      | Some inc \<Rightarrow>
          (case svc_declineCall e (call_id inc) (store w) of
             Inl _ \<Rightarrow> w
           | Inr st' \<Rightarrow> w\<lparr>store := st', incomingCall := None\<rparr>))"

text \<open>The \<^verbatim>\<open>catch\<close> block of \<^verbatim>\<open>acceptCall\<close>.\<close>

definition acceptFailed :: "render \<Rightarrow> env \<Rightarrow> world \<Rightarrow> world" where
  "acceptFailed r e w = declineCall r e (addToast (ToastError (''Failed to accept call: '' @ errorMessage e)) w)"

text \<open>
  \<^verbatim>\<open>acceptCall\<close> after the microphone was granted. The connection is created with the id of
  the incoming call; the offer of the record is applied, the answer made, set and written.
\<close>

definition negotiateAnswer :: "render \<Rightarrow> env \<Rightarrow> CallData \<Rightarrow> MediaStream \<Rightarrow> world \<Rightarrow> world" where
  "negotiateAnswer r e inc stream w =
     (case createPeerConnection (Some (call_id inc)) (isCallerRef w) (w\<lparr>localStreamRef := Some stream\<rparr>) of
        (i, w1) \<Rightarrow>
          (let w2 = update_pc i (\<lambda>pc. pc\<lparr>pc_trackCount := audioTrackCount stream\<rparr>) w1 in
           case offer inc of
             None \<Rightarrow> acceptFailed r e w2
           | Some off \<Rightarrow>
               (case setRemoteDescription e i off w2 of
                  None \<Rightarrow> acceptFailed r e w2
                | Some w3 \<Rightarrow>
                    (case createAnswerResult e of
                       None \<Rightarrow> acceptFailed r e w3
                     | Some ans \<Rightarrow>
                         (case setLocalDescription e i ans w3 of
                            None \<Rightarrow> acceptFailed r e w3
                          | Some w4 \<Rightarrow>
                              (case svc_acceptCall e (call_id inc) ans (store w4) of
                                 Inl _ \<Rightarrow> acceptFailed r e w4
                               | Inr st' \<Rightarrow>
                                   addToast (ToastSuccess ''Call accepted'')
                                     (startTimer (w4\<lparr>store := st', currentCallDocRef := Some (call_id inc),
                                                     incomingCall := None\<rparr>))))))))"

definition acceptCall :: "render \<Rightarrow> env \<Rightarrow> world \<Rightarrow> world" where
  "acceptCall r e w =
     (case r_incomingCall r of
        None \<Rightarrow> w
      | Some inc \<Rightarrow>
          (case r_currentUser r of
             None \<Rightarrow> w
           | Some uid \<Rightarrow>
               (let w1 = w\<lparr>isCallerRef := False,
                           currentCall := Some (connectingSession (callerId inc) (callerName inc) (callerPhoto inc))\<rparr> in
                case requestMicrophoneAccess e of
                  (ts, None) \<Rightarrow> declineCall r e (addToasts ts w1)
                | (ts, Some stream) \<Rightarrow> negotiateAnswer r e inc stream (addToasts ts w1))))"

subsection \<open>\<^verbatim>\<open>IncomingCallProvider\<close>\<close>

text \<open>
  The callback of \<^verbatim>\<open>subscribeToIncomingCalls\<close>: the newest ringing call is surfaced when the
  render's \<^verbatim>\<open>isInCall\<close> and \<^verbatim>\<open>currentCall\<close> are both unset, and a 30 second timeout for its
  id is set (\<open>autoDeclines\<close> are the pending ones; none is ever cleared).
\<close>

definition onIncomingCalls :: "render \<Rightarrow> CallData list \<Rightarrow> world \<Rightarrow> world" where
  "onIncomingCalls r calls w =
     (case calls of
        [] \<Rightarrow> w
      | latestCall # _ \<Rightarrow>
          (if \<not> r_isInCall r \<and> r_currentCall r = None
           then w\<lparr>incomingCall := Some latestCall, autoDeclines := autoDeclines w @ [call_id latestCall]\<rparr>
           else w))"

text \<open>
  The callback of that timeout: when the surfaced call still has the id, it calls
  \<^verbatim>\<open>CallService.declineCall\<close> (not awaited, a rejection is nobody's) and clears the surface.
\<close>

definition onAutoDecline :: "env \<Rightarrow> string \<Rightarrow> world \<Rightarrow> world" where
  "onAutoDecline e cid w =
     (if map_option call_id (incomingCall w) = Some cid
      then (case svc_declineCall e cid (store w) of
              Inl _ \<Rightarrow> w\<lparr>incomingCall := None\<rparr>
            | Inr st' \<Rightarrow> w\<lparr>store := st', incomingCall := None\<rparr>)
      else w)"

definition fireAutoDecline :: "env \<Rightarrow> string \<Rightarrow> world \<Rightarrow> world" where
  "fireAutoDecline e cid w =
     (if cid \<in> set (autoDeclines w)
      then onAutoDecline e cid (w\<lparr>autoDeclines := remove1 cid (autoDeclines w)\<rparr>)
      else w)"

subsection \<open>Overlapping appends of candidates\<close>

text \<open>
  \<^verbatim>\<open>addIceCandidate\<close> suspends at each of its two requests, so the requests of several calls
  of it can reach the store in any order. An append in progress is at one of three points:
  before its read, between its read and its write (holding the array it read), or done.
\<close>

datatype append_phase = BeforeRead | HasRead "candidate list" | Done

record pending_append =
  ap_callId :: string
  ap_candidate :: candidate
  ap_isCaller :: bool
  ap_phase :: append_phase

definition stepAppend :: "env \<Rightarrow> pending_append \<Rightarrow> store \<Rightarrow> pending_append \<times> store" where
  "stepAppend e p st =
     (case ap_phase p of
        BeforeRead \<Rightarrow>
          (case readCandidates e st (ap_callId p) (ap_isCaller p) of
             Inl _ \<Rightarrow> (p\<lparr>ap_phase := Done\<rparr>, st)
           | Inr None \<Rightarrow> (p\<lparr>ap_phase := Done\<rparr>, st)
           | Inr (Some existingCandidates) \<Rightarrow> (p\<lparr>ap_phase := HasRead existingCandidates\<rparr>, st))
      | HasRead existingCandidates \<Rightarrow>
          (case writeCandidates e st (ap_callId p) (ap_isCaller p) existingCandidates (ap_candidate p) of
             Inl _ \<Rightarrow> (p\<lparr>ap_phase := Done\<rparr>, st)
           | Inr st' \<Rightarrow> (p\<lparr>ap_phase := Done\<rparr>, st'))
      | Done \<Rightarrow> (p, st))"

text \<open>
  Two appends in progress and a schedule: \<open>True\<close> lets the first one make its next request,
  \<open>False\<close> the second.
\<close>

fun runAppends :: "env \<Rightarrow> bool list \<Rightarrow> pending_append \<times> pending_append \<times> store \<Rightarrow> pending_append \<times> pending_append \<times> store" where
  "runAppends e [] c = c"
| "runAppends e (True # sched) (p, q, st) =
     (case stepAppend e p st of (p', st') \<Rightarrow> runAppends e sched (p', q, st'))"
| "runAppends e (False # sched) (p, q, st) =
     (case stepAppend e q st of (q', st') \<Rightarrow> runAppends e sched (p, q', st'))"

definition newAppend :: "string \<Rightarrow> candidate \<Rightarrow> bool \<Rightarrow> pending_append" where
  "newAppend cid c isCallerCandidate =
     \<lparr>ap_callId = cid, ap_candidate = c, ap_isCaller = isCallerCandidate, ap_phase = BeforeRead\<rparr>"

section \<open>States and scenarios\<close>

text \<open>
  Idle is the state the client starts in and the state \<^verbatim>\<open>endCall\<close> resets to: no session,
  \<^verbatim>\<open>isInCall\<close> unset and no call document in \<^verbatim>\<open>currentCallDocRef\<close>.
\<close>

definition idle :: "world \<Rightarrow> bool" where
  "idle w = (\<not> isInCall w \<and> currentCall w = None \<and> currentCallDocRef w = None)"

text \<open>No remote candidate has been given to any peer connection of the client.\<close>

definition noCandidateApplied :: "world \<Rightarrow> bool" where
  "noCandidateApplied w = (list_all (\<lambda>pc. appliedCandidates pc = []) (pcs w))"

text \<open>The peer connections a handler created: those beyond the ones that existed before.\<close>

definition createdPcs :: "world \<Rightarrow> world \<Rightarrow> PeerConnection list" where
  "createdPcs w w' = drop (length (pcs w)) (pcs w')"

text \<open>The invariant of two overlapping appends to the two arrays of one record.\<close>

definition phaseOk :: "append_phase \<Rightarrow> candidate list \<Rightarrow> candidate \<Rightarrow> candidate list \<Rightarrow> bool" where
  "phaseOk ph before c current =
     (case ph of
        BeforeRead \<Rightarrow> current = before
      | HasRead existingCandidates \<Rightarrow> existingCandidates = before \<and> current = before
      | Done \<Rightarrow> current = before @ [c])"

definition appendInv :: "string \<Rightarrow> CallData \<Rightarrow> candidate \<Rightarrow> candidate \<Rightarrow> pending_append \<times> pending_append \<times> store \<Rightarrow> bool" where
  "appendInv cid d c1 c2 cfg =
     (case cfg of
        (p, q, st) \<Rightarrow>
          ap_callId p = cid \<and> ap_candidate p = c1 \<and> ap_isCaller p \<and>
          ap_callId q = cid \<and> ap_candidate q = c2 \<and> \<not> ap_isCaller q \<and>
          (case st cid of
             None \<Rightarrow> False
           | Some d' \<Rightarrow>
               phaseOk (ap_phase p) (callerCandidates d) c1 (callerCandidates d') \<and>
               phaseOk (ap_phase q) (receiverCandidates d) c2 (receiverCandidates d')))"

text \<open>
  Alice's client, signed in and idle, with an empty store; an environment in which the
  microphone is granted and every primitive succeeds; one in which the permission is
  denied.
\<close>

definition alice0 :: world where
  "alice0 =
     \<lparr>currentUser = Some ''alice'', userProfile = Some \<lparr>name = ''Alice'', photoURL = None\<rparr>,
      isInCall = False, currentCall = None, callHistory = [], incomingCall = None,
      callDuration = 0, intervalRef = None, intervals = [],
      peerConnectionRef = None, pcs = [], localStreamRef = None, remoteAudioSrc = None,
      currentCallDocRef = None, callTimeoutRef = None, isCallerRef = False, callListenerRef = None,
      subscriptions = [], timeouts = [], autoDeclines = [], nextHandle = 1,
      store = Map.empty, toasts = [], rejections = []\<rparr>"

definition env_ok :: env where
  "env_ok =
     \<lparr>micOutcome = Granted \<lparr>stream_id = 1, audioTrackCount = 1\<rparr>,
      createOfferResult = Some \<lparr>sdp_type = ''offer'', sdp = ''o''\<rparr>,
      createAnswerResult = Some \<lparr>sdp_type = ''answer'', sdp = ''a''\<rparr>,
      setLocalDescriptionOk = True, setRemoteDescriptionOk = True, storeUp = True,
      newDocId = ''call1'', serverTime = 100, now = 200, errorMessage = ''failed''\<rparr>"

definition env_denied :: env where
  "env_denied = env_ok\<lparr>micOutcome := GetUserMediaRejected ''NotAllowedError'' ''Permission denied''\<rparr>"

text \<open>Alice calls Bob: the call is ringing, its record is \<^verbatim>\<open>call1\<close>.\<close>

definition ringing_world :: world where
  "ringing_world = initiateCall (render_of alice0) env_ok ''bob'' ''Bob'' [] alice0"

text \<open>Snapshots of \<^verbatim>\<open>call1\<close> as Bob's client leaves it: accepted with an answer, declined.\<close>

definition call1_ringing :: CallData where
  "call1_ringing =
     \<lparr>call_id = ''call1'', callerId = ''alice'', receiverId = ''bob'', callerName = ''Alice'',
      receiverName = ''Bob'', callerPhoto = [], receiverPhoto = [], status = Ringing,
      timestamp = 100, offer = Some \<lparr>sdp_type = ''offer'', sdp = ''o''\<rparr>, answer = None,
      callerCandidates = [], receiverCandidates = [], duration = None\<rparr>"

definition call1_accepted :: CallData where
  "call1_accepted =
     call1_ringing\<lparr>status := Accepted, answer := Some \<lparr>sdp_type = ''answer'', sdp = ''a''\<rparr>,
                   receiverCandidates := [''rc1'']\<rparr>"

definition call1_declined :: CallData where
  "call1_declined = call1_ringing\<lparr>status := Declined\<rparr>"

text \<open>
  Carol calls Alice (record \<^verbatim>\<open>call0\<close>): Alice's watcher surfaces the call while she is
  idle. Then either Alice places a call of her own to Bob, or Carol hangs up: the record
  is marked ended and the watcher is told that no call is ringing any more.
\<close>

definition call0_ringing :: CallData where
  "call0_ringing =
     \<lparr>call_id = ''call0'', callerId = ''carol'', receiverId = ''alice'', callerName = ''Carol'',
      receiverName = ''Alice'', callerPhoto = [], receiverPhoto = [], status = Ringing,
      timestamp = 90, offer = Some \<lparr>sdp_type = ''offer'', sdp = ''c''\<rparr>, answer = None,
      callerCandidates = [], receiverCandidates = [], duration = None\<rparr>"

definition surfaced_world :: world where
  "surfaced_world =
     onIncomingCalls (render_of alice0) [call0_ringing]
       (alice0\<lparr>store := [''call0'' \<mapsto> call0_ringing]\<rparr>)"

definition busy_world :: world where
  "busy_world = initiateCall (render_of surfaced_world) env_ok ''bob'' ''Bob'' [] surfaced_world"

definition hungup_world :: world where
  "hungup_world =
     onIncomingCalls (render_of surfaced_world) []
       (surfaced_world\<lparr>store := (case svc_endCall env_ok ''call0'' 0 (store surfaced_world) of
                                   Inl _ \<Rightarrow> store surfaced_world
                                 | Inr st' \<Rightarrow> st')\<rparr>)"

text \<open>
  Bob accepts: the record \<^verbatim>\<open>call1\<close> is \<^verbatim>\<open>accepted\<close> and holds his answer, its snapshot
  reaches Alice's subscription and her connection reports \<^verbatim>\<open>connected\<close>. Three seconds
  later the same snapshot is delivered once more.
\<close>

definition connected_world :: world where
  "connected_world =
     deliverCallSnapshot env_ok 1 (Some call1_accepted)
       (ringing_world\<lparr>store := (store ringing_world)(''call1'' \<mapsto> call1_accepted)\<rparr>)"

definition inCall_world :: world where
  "inCall_world = handleConnectionStateChange (render_of alice0) env_ok ConnConnected connected_world"

definition talking_world :: world where
  "talking_world = tick (tick (tick inCall_world))"

definition redelivered_world :: world where
  "redelivered_world = deliverCallSnapshot env_ok 1 (Some call1_accepted) talking_world"

text \<open>Bob declines instead: the declined snapshot reaches Alice's subscription.\<close>

definition declined_world :: world where
  "declined_world = deliverCallSnapshot env_ok 1 (Some call1_declined) ringing_world"

text \<open>Alice accepts Carol's call from the idle state; the connection she creates for it.\<close>

definition answering_world :: world where
  "answering_world = acceptCall (render_of surfaced_world) env_ok surfaced_world"

definition answering_pc :: PeerConnection where
  "answering_pc =
     \<lparr>pc_callDoc = Some ''call0'', pc_isCaller = False, pc_closed = False, pc_trackCount = 1,
      signalingState = Stable,
      localDescription = Some \<lparr>sdp_type = ''answer'', sdp = ''a''\<rparr>,
      remoteDescription = Some \<lparr>sdp_type = ''offer'', sdp = ''c''\<rparr>, appliedCandidates = []\<rparr>"

text \<open>
  Alice, three seconds into her conversation with Bob, clicks the End button twice: the
  second click arrives while the first call of \<^verbatim>\<open>endCall\<close> awaits its store write, so both
  clicks run the \<^verbatim>\<open>endCall\<close> of the same render. Then both calls resume, in their order.
\<close>

definition first_click_world :: world where
  "first_click_world = endCallBegin (render_of talking_world) env_ok talking_world"

definition second_click_world :: world where
  "second_click_world = endCallBegin (render_of talking_world) env_ok first_click_world"

definition double_ended_world :: world where
  "double_ended_world =
     endCallFinish (render_of talking_world) env_ok
       (endCallFinish (render_of talking_world) env_ok second_click_world)"

section \<open>What each step of \<^verbatim>\<open>endCall\<close> touches\<close>

lemma addToast_fields [simp]:
  "rejections (addToast t w) = rejections w"
  "callHistory (addToast t w) = callHistory w" "store (addToast t w) = store w"
  "currentCall (addToast t w) = currentCall w" "isInCall (addToast t w) = isInCall w"
  "currentCallDocRef (addToast t w) = currentCallDocRef w" "isCallerRef (addToast t w) = isCallerRef w"
  "pcs (addToast t w) = pcs w" "subscriptions (addToast t w) = subscriptions w"
  "timeouts (addToast t w) = timeouts w" "callDuration (addToast t w) = callDuration w"
  "intervals (addToast t w) = intervals w" "intervalRef (addToast t w) = intervalRef w"
  "peerConnectionRef (addToast t w) = peerConnectionRef w" "nextHandle (addToast t w) = nextHandle w"
  "incomingCall (addToast t w) = incomingCall w" "localStreamRef (addToast t w) = localStreamRef w"
  "currentUser (addToast t w) = currentUser w" "userProfile (addToast t w) = userProfile w"
  "callListenerRef (addToast t w) = callListenerRef w" "callTimeoutRef (addToast t w) = callTimeoutRef w"
  "toasts (addToast t w) = toasts w @ [t]"
  by (simp_all add: addToast_def)

lemma addToasts_fields [simp]:
  "rejections (addToasts ts w) = rejections w"
  "callHistory (addToasts ts w) = callHistory w" "store (addToasts ts w) = store w"
  "currentCall (addToasts ts w) = currentCall w" "isInCall (addToasts ts w) = isInCall w"
  "currentCallDocRef (addToasts ts w) = currentCallDocRef w" "isCallerRef (addToasts ts w) = isCallerRef w"
  "pcs (addToasts ts w) = pcs w" "subscriptions (addToasts ts w) = subscriptions w"
  "timeouts (addToasts ts w) = timeouts w" "callDuration (addToasts ts w) = callDuration w"
  "intervals (addToasts ts w) = intervals w" "intervalRef (addToasts ts w) = intervalRef w"
  "peerConnectionRef (addToasts ts w) = peerConnectionRef w" "nextHandle (addToasts ts w) = nextHandle w"
  "incomingCall (addToasts ts w) = incomingCall w" "localStreamRef (addToasts ts w) = localStreamRef w"
  "currentUser (addToasts ts w) = currentUser w" "userProfile (addToasts ts w) = userProfile w"
  "callListenerRef (addToasts ts w) = callListenerRef w" "callTimeoutRef (addToasts ts w) = callTimeoutRef w"
  "toasts (addToasts ts w) = toasts w @ ts"
  by (simp_all add: addToasts_def)

lemma clearCallTimeout_fields [simp]:
  "rejections (clearCallTimeout w) = rejections w"
  "callHistory (clearCallTimeout w) = callHistory w" "store (clearCallTimeout w) = store w"
  "currentCall (clearCallTimeout w) = currentCall w" "isInCall (clearCallTimeout w) = isInCall w"
  "currentCallDocRef (clearCallTimeout w) = currentCallDocRef w" "isCallerRef (clearCallTimeout w) = isCallerRef w"
  "pcs (clearCallTimeout w) = pcs w" "subscriptions (clearCallTimeout w) = subscriptions w"
  "callDuration (clearCallTimeout w) = callDuration w"
  "intervals (clearCallTimeout w) = intervals w" "intervalRef (clearCallTimeout w) = intervalRef w"
  "peerConnectionRef (clearCallTimeout w) = peerConnectionRef w" "nextHandle (clearCallTimeout w) = nextHandle w"
  "incomingCall (clearCallTimeout w) = incomingCall w" "localStreamRef (clearCallTimeout w) = localStreamRef w"
  "currentUser (clearCallTimeout w) = currentUser w" "userProfile (clearCallTimeout w) = userProfile w"
  "callListenerRef (clearCallTimeout w) = callListenerRef w" "callTimeoutRef (clearCallTimeout w) = None"
  "toasts (clearCallTimeout w) = toasts w"
  by (simp_all add: clearCallTimeout_def split: option.splits)

lemma stopTimer_fields [simp]:
  "rejections (stopTimer w) = rejections w"
  "callHistory (stopTimer w) = callHistory w" "store (stopTimer w) = store w"
  "currentCall (stopTimer w) = currentCall w" "isInCall (stopTimer w) = isInCall w"
  "currentCallDocRef (stopTimer w) = currentCallDocRef w" "isCallerRef (stopTimer w) = isCallerRef w"
  "pcs (stopTimer w) = pcs w" "subscriptions (stopTimer w) = subscriptions w"
  "timeouts (stopTimer w) = timeouts w" "callDuration (stopTimer w) = callDuration w"
  "intervalRef (stopTimer w) = None"
  "peerConnectionRef (stopTimer w) = peerConnectionRef w" "nextHandle (stopTimer w) = nextHandle w"
  "incomingCall (stopTimer w) = incomingCall w" "localStreamRef (stopTimer w) = localStreamRef w"
  "currentUser (stopTimer w) = currentUser w" "userProfile (stopTimer w) = userProfile w"
  "callListenerRef (stopTimer w) = callListenerRef w" "callTimeoutRef (stopTimer w) = callTimeoutRef w"
  "toasts (stopTimer w) = toasts w"
  by (simp_all add: stopTimer_def split: option.splits)

lemma callListenerOff_fields [simp]:
  "rejections (callListenerOff w) = rejections w"
  "callHistory (callListenerOff w) = callHistory w" "store (callListenerOff w) = store w"
  "currentCall (callListenerOff w) = currentCall w" "isInCall (callListenerOff w) = isInCall w"
  "currentCallDocRef (callListenerOff w) = currentCallDocRef w" "isCallerRef (callListenerOff w) = isCallerRef w"
  "pcs (callListenerOff w) = pcs w"
  "timeouts (callListenerOff w) = timeouts w" "callDuration (callListenerOff w) = callDuration w"
  "intervals (callListenerOff w) = intervals w" "intervalRef (callListenerOff w) = intervalRef w"
  "peerConnectionRef (callListenerOff w) = peerConnectionRef w" "nextHandle (callListenerOff w) = nextHandle w"
  "incomingCall (callListenerOff w) = incomingCall w" "localStreamRef (callListenerOff w) = localStreamRef w"
  "currentUser (callListenerOff w) = currentUser w" "userProfile (callListenerOff w) = userProfile w"
  "callListenerRef (callListenerOff w) = None" "callTimeoutRef (callListenerOff w) = callTimeoutRef w"
  "toasts (callListenerOff w) = toasts w"
  by (simp_all add: callListenerOff_def unsubscribe_def split: option.splits)

lemma unsubscribe_fields [simp]:
  "rejections (unsubscribe h w) = rejections w"
  "callHistory (unsubscribe h w) = callHistory w" "store (unsubscribe h w) = store w"
  "currentCall (unsubscribe h w) = currentCall w" "isInCall (unsubscribe h w) = isInCall w"
  "currentCallDocRef (unsubscribe h w) = currentCallDocRef w" "isCallerRef (unsubscribe h w) = isCallerRef w"
  "pcs (unsubscribe h w) = pcs w"
  "timeouts (unsubscribe h w) = timeouts w" "callDuration (unsubscribe h w) = callDuration w"
  "intervals (unsubscribe h w) = intervals w" "intervalRef (unsubscribe h w) = intervalRef w"
  "peerConnectionRef (unsubscribe h w) = peerConnectionRef w" "nextHandle (unsubscribe h w) = nextHandle w"
  "incomingCall (unsubscribe h w) = incomingCall w" "localStreamRef (unsubscribe h w) = localStreamRef w"
  "currentUser (unsubscribe h w) = currentUser w" "userProfile (unsubscribe h w) = userProfile w"
  "callListenerRef (unsubscribe h w) = callListenerRef w" "callTimeoutRef (unsubscribe h w) = callTimeoutRef w"
  "toasts (unsubscribe h w) = toasts w"
  by (simp_all add: unsubscribe_def)

lemma cleanup_fields [simp]:
  "rejections (cleanup w) = rejections w"
  "callHistory (cleanup w) = callHistory w" "store (cleanup w) = store w"
  "currentCall (cleanup w) = currentCall w" "isInCall (cleanup w) = isInCall w"
  "currentCallDocRef (cleanup w) = currentCallDocRef w" "isCallerRef (cleanup w) = isCallerRef w"
  "subscriptions (cleanup w) = subscriptions w"
  "timeouts (cleanup w) = timeouts w" "callDuration (cleanup w) = callDuration w"
  "intervals (cleanup w) = intervals w" "intervalRef (cleanup w) = intervalRef w"
  "peerConnectionRef (cleanup w) = None" "nextHandle (cleanup w) = nextHandle w"
  "incomingCall (cleanup w) = incomingCall w" "localStreamRef (cleanup w) = None"
  "currentUser (cleanup w) = currentUser w" "userProfile (cleanup w) = userProfile w"
  "callListenerRef (cleanup w) = callListenerRef w" "callTimeoutRef (cleanup w) = callTimeoutRef w"
  "toasts (cleanup w) = toasts w" "length (pcs (cleanup w)) = length (pcs w)"
  by (simp_all add: cleanup_def update_pc_def Let_def split: option.splits)

lemma markEnded_fields [simp]:
  "rejections (markEnded r e w) = rejections w"
  "callHistory (markEnded r e w) = callHistory w"
  "currentCall (markEnded r e w) = currentCall w" "isInCall (markEnded r e w) = isInCall w"
  "currentCallDocRef (markEnded r e w) = currentCallDocRef w" "isCallerRef (markEnded r e w) = isCallerRef w"
  "pcs (markEnded r e w) = pcs w" "subscriptions (markEnded r e w) = subscriptions w"
  "timeouts (markEnded r e w) = timeouts w" "callDuration (markEnded r e w) = callDuration w"
  "intervals (markEnded r e w) = intervals w" "intervalRef (markEnded r e w) = intervalRef w"
  "peerConnectionRef (markEnded r e w) = peerConnectionRef w" "nextHandle (markEnded r e w) = nextHandle w"
  "incomingCall (markEnded r e w) = incomingCall w" "localStreamRef (markEnded r e w) = localStreamRef w"
  "currentUser (markEnded r e w) = currentUser w" "userProfile (markEnded r e w) = userProfile w"
  "callListenerRef (markEnded r e w) = callListenerRef w" "callTimeoutRef (markEnded r e w) = callTimeoutRef w"
  "toasts (markEnded r e w) = toasts w"
  by (simp_all add: markEnded_def split: option.splits sum.splits)

lemma saveHistory_fields [simp]:
  "rejections (saveHistory r e w) = rejections w"
  "store (saveHistory r e w) = store w"
  "currentCall (saveHistory r e w) = currentCall w" "isInCall (saveHistory r e w) = isInCall w"
  "currentCallDocRef (saveHistory r e w) = currentCallDocRef w" "isCallerRef (saveHistory r e w) = isCallerRef w"
  "pcs (saveHistory r e w) = pcs w" "subscriptions (saveHistory r e w) = subscriptions w"
  "timeouts (saveHistory r e w) = timeouts w" "callDuration (saveHistory r e w) = callDuration w"
  "intervals (saveHistory r e w) = intervals w" "intervalRef (saveHistory r e w) = intervalRef w"
  "peerConnectionRef (saveHistory r e w) = peerConnectionRef w" "nextHandle (saveHistory r e w) = nextHandle w"
  "incomingCall (saveHistory r e w) = incomingCall w" "localStreamRef (saveHistory r e w) = localStreamRef w"
  "currentUser (saveHistory r e w) = currentUser w" "userProfile (saveHistory r e w) = userProfile w"
  "callListenerRef (saveHistory r e w) = callListenerRef w" "callTimeoutRef (saveHistory r e w) = callTimeoutRef w"
  "toasts (saveHistory r e w) = toasts w"
  by (simp_all add: saveHistory_def addToCallHistory_def split: option.splits)

lemma resetState_fields [simp]:
  "rejections (resetState w) = rejections w"
  "callHistory (resetState w) = callHistory w" "store (resetState w) = store w"
  "currentCall (resetState w) = None" "isInCall (resetState w) = False"
  "currentCallDocRef (resetState w) = None" "isCallerRef (resetState w) = False"
  "pcs (resetState w) = pcs w" "subscriptions (resetState w) = subscriptions w"
  "timeouts (resetState w) = timeouts w" "callDuration (resetState w) = 0"
  "intervalRef (resetState w) = None"
  "peerConnectionRef (resetState w) = peerConnectionRef w" "nextHandle (resetState w) = nextHandle w"
  "incomingCall (resetState w) = incomingCall w" "localStreamRef (resetState w) = localStreamRef w"
  "currentUser (resetState w) = currentUser w" "userProfile (resetState w) = userProfile w"
  "callListenerRef (resetState w) = callListenerRef w" "callTimeoutRef (resetState w) = callTimeoutRef w"
  "toasts (resetState w) = toasts w"
  by (simp_all add: resetState_def resetTimer_def)

lemma rejected_fields [simp]:
  "callHistory (rejected err w) = callHistory w" "store (rejected err w) = store w"
  "currentCall (rejected err w) = currentCall w" "isInCall (rejected err w) = isInCall w"
  "currentCallDocRef (rejected err w) = currentCallDocRef w" "isCallerRef (rejected err w) = isCallerRef w"
  "pcs (rejected err w) = pcs w" "subscriptions (rejected err w) = subscriptions w"
  "timeouts (rejected err w) = timeouts w" "callDuration (rejected err w) = callDuration w"
  "intervals (rejected err w) = intervals w" "intervalRef (rejected err w) = intervalRef w"
  "peerConnectionRef (rejected err w) = peerConnectionRef w" "nextHandle (rejected err w) = nextHandle w"
  "incomingCall (rejected err w) = incomingCall w" "localStreamRef (rejected err w) = localStreamRef w"
  "currentUser (rejected err w) = currentUser w" "userProfile (rejected err w) = userProfile w"
  "callListenerRef (rejected err w) = callListenerRef w" "callTimeoutRef (rejected err w) = callTimeoutRef w"
  "toasts (rejected err w) = toasts w" "rejections (rejected err w) = rejections w @ [err]"
  by (simp_all add: rejected_def)

lemma endCallBegin_fields [simp]:
  "callHistory (endCallBegin r e w) = callHistory w"
  "currentCall (endCallBegin r e w) = currentCall w" "isInCall (endCallBegin r e w) = isInCall w"
  "currentCallDocRef (endCallBegin r e w) = currentCallDocRef w"
  "isCallerRef (endCallBegin r e w) = isCallerRef w"
  "callDuration (endCallBegin r e w) = callDuration w" "intervalRef (endCallBegin r e w) = None"
  "peerConnectionRef (endCallBegin r e w) = None" "localStreamRef (endCallBegin r e w) = None"
  "callListenerRef (endCallBegin r e w) = None" "callTimeoutRef (endCallBegin r e w) = None"
  "incomingCall (endCallBegin r e w) = incomingCall w" "nextHandle (endCallBegin r e w) = nextHandle w"
  "currentUser (endCallBegin r e w) = currentUser w" "userProfile (endCallBegin r e w) = userProfile w"
  "toasts (endCallBegin r e w) = toasts w" "rejections (endCallBegin r e w) = rejections w"
  by (simp_all add: endCallBegin_def)

lemma endCallFinish_fields [simp]:
  "store (endCallFinish r e w) = store w"
  "currentCall (endCallFinish r e w) = None" "isInCall (endCallFinish r e w) = False"
  "currentCallDocRef (endCallFinish r e w) = None" "isCallerRef (endCallFinish r e w) = False"
  "callDuration (endCallFinish r e w) = 0" "intervalRef (endCallFinish r e w) = None"
  "pcs (endCallFinish r e w) = pcs w" "subscriptions (endCallFinish r e w) = subscriptions w"
  "timeouts (endCallFinish r e w) = timeouts w"
  "peerConnectionRef (endCallFinish r e w) = peerConnectionRef w"
  "localStreamRef (endCallFinish r e w) = localStreamRef w"
  "callListenerRef (endCallFinish r e w) = callListenerRef w"
  "callTimeoutRef (endCallFinish r e w) = callTimeoutRef w"
  "incomingCall (endCallFinish r e w) = incomingCall w" "nextHandle (endCallFinish r e w) = nextHandle w"
  "currentUser (endCallFinish r e w) = currentUser w" "userProfile (endCallFinish r e w) = userProfile w"
  "toasts (endCallFinish r e w) = toasts w"
  "rejections (endCallFinish r e w) = rejections w @ [toastInfoError]"
  by (simp_all add: endCallFinish_def)

lemma endCall_fields [simp]:
  "currentCall (endCall r e w) = None" "isInCall (endCall r e w) = False"
  "currentCallDocRef (endCall r e w) = None" "isCallerRef (endCall r e w) = False"
  "callDuration (endCall r e w) = 0" "intervalRef (endCall r e w) = None"
  "peerConnectionRef (endCall r e w) = None" "localStreamRef (endCall r e w) = None"
  "callListenerRef (endCall r e w) = None" "callTimeoutRef (endCall r e w) = None"
  "incomingCall (endCall r e w) = incomingCall w" "nextHandle (endCall r e w) = nextHandle w"
  "currentUser (endCall r e w) = currentUser w" "userProfile (endCall r e w) = userProfile w"
  "toasts (endCall r e w) = toasts w"
  "rejections (endCall r e w) = rejections w @ [toastInfoError]"
  by (simp_all add: endCall_def)

lemma endCall_store_idle: "currentCallDocRef w = None \<Longrightarrow> store (endCall r e w) = store w"
  by (simp add: endCall_def endCallBegin_def markEnded_def)

lemma endCall_history_none: "r_currentCall r = None \<Longrightarrow> callHistory (endCall r e w) = callHistory w"
  by (simp add: endCall_def endCallFinish_def saveHistory_def)

lemma saveHistory_history: "\<exists>ls. callHistory (saveHistory r e w) = ls @ callHistory w \<and> length ls \<le> 1 \<and> list_all (\<lambda>l. log_status l = Completed) ls"
  by (auto simp add: saveHistory_def addToCallHistory_def mkCallLog_def split: option.splits)

lemma endCall_history: "\<exists>ls. callHistory (endCall r e w) = ls @ callHistory w \<and> length ls \<le> 1 \<and> list_all (\<lambda>l. log_status l = Completed) ls"
  using saveHistory_history [of r e "endCallBegin r e w"]
  by (simp add: endCall_def endCallFinish_def)

section \<open>What the other steps touch\<close>

lemma startTimer_fields [simp]:
  "toasts (startTimer w) = toasts w"
  "rejections (startTimer w) = rejections w"
  "callHistory (startTimer w) = callHistory w" "store (startTimer w) = store w"
  "currentCall (startTimer w) = currentCall w" "isInCall (startTimer w) = isInCall w"
  "currentCallDocRef (startTimer w) = currentCallDocRef w" "isCallerRef (startTimer w) = isCallerRef w"
  "pcs (startTimer w) = pcs w" "subscriptions (startTimer w) = subscriptions w"
  "timeouts (startTimer w) = timeouts w" "callDuration (startTimer w) = 0"
  "intervals (startTimer w) = intervals w @ [nextHandle w]" "intervalRef (startTimer w) = Some (nextHandle w)"
  "peerConnectionRef (startTimer w) = peerConnectionRef w" "nextHandle (startTimer w) = Suc (nextHandle w)"
  "incomingCall (startTimer w) = incomingCall w"
  by (simp_all add: startTimer_def)

lemma setSessionStatus_fields [simp]:
  "toasts (setSessionStatus s w) = toasts w"
  "rejections (setSessionStatus s w) = rejections w"
  "callHistory (setSessionStatus s w) = callHistory w" "store (setSessionStatus s w) = store w"
  "currentCall (setSessionStatus s w) = map_option (\<lambda>prev. prev\<lparr>cs_status := s\<rparr>) (currentCall w)"
  "isInCall (setSessionStatus s w) = isInCall w"
  "currentCallDocRef (setSessionStatus s w) = currentCallDocRef w" "isCallerRef (setSessionStatus s w) = isCallerRef w"
  "pcs (setSessionStatus s w) = pcs w" "subscriptions (setSessionStatus s w) = subscriptions w"
  "timeouts (setSessionStatus s w) = timeouts w" "callDuration (setSessionStatus s w) = callDuration w"
  "intervals (setSessionStatus s w) = intervals w" "intervalRef (setSessionStatus s w) = intervalRef w"
  "peerConnectionRef (setSessionStatus s w) = peerConnectionRef w" "nextHandle (setSessionStatus s w) = nextHandle w"
  "incomingCall (setSessionStatus s w) = incomingCall w"
  by (simp_all add: setSessionStatus_def)

lemma update_pc_fields [simp]:
  "toasts (update_pc i f w) = toasts w"
  "rejections (update_pc i f w) = rejections w"
  "callHistory (update_pc i f w) = callHistory w" "store (update_pc i f w) = store w"
  "currentCall (update_pc i f w) = currentCall w" "isInCall (update_pc i f w) = isInCall w"
  "currentCallDocRef (update_pc i f w) = currentCallDocRef w" "isCallerRef (update_pc i f w) = isCallerRef w"
  "subscriptions (update_pc i f w) = subscriptions w"
  "timeouts (update_pc i f w) = timeouts w" "callDuration (update_pc i f w) = callDuration w"
  "intervals (update_pc i f w) = intervals w" "intervalRef (update_pc i f w) = intervalRef w"
  "peerConnectionRef (update_pc i f w) = peerConnectionRef w" "nextHandle (update_pc i f w) = nextHandle w"
  "incomingCall (update_pc i f w) = incomingCall w" "length (pcs (update_pc i f w)) = length (pcs w)"
  by (simp_all add: update_pc_def)

lemma declineCall_fields [simp]:
  "rejections (declineCall r e w) = rejections w"
  "callHistory (declineCall r e w) = callHistory w"
  "currentCall (declineCall r e w) = currentCall w" "isInCall (declineCall r e w) = isInCall w"
  "currentCallDocRef (declineCall r e w) = currentCallDocRef w" "isCallerRef (declineCall r e w) = isCallerRef w"
  "pcs (declineCall r e w) = pcs w" "subscriptions (declineCall r e w) = subscriptions w"
  "timeouts (declineCall r e w) = timeouts w" "callDuration (declineCall r e w) = callDuration w"
  "intervals (declineCall r e w) = intervals w" "intervalRef (declineCall r e w) = intervalRef w"
  "peerConnectionRef (declineCall r e w) = peerConnectionRef w" "nextHandle (declineCall r e w) = nextHandle w"
  by (simp_all add: declineCall_def split: option.splits sum.splits)

lemma setLocalDescription_SomeD:
  "setLocalDescription e i d w = Some w' \<Longrightarrow>
     \<exists>st. w' = update_pc i (\<lambda>pc. pc\<lparr>localDescription := Some d, signalingState := st\<rparr>) w"
  by (auto simp add: setLocalDescription_def split: if_splits option.splits)

lemma setRemoteDescription_SomeD:
  "setRemoteDescription e i d w = Some w' \<Longrightarrow>
     \<exists>st. w' = update_pc i (\<lambda>pc. pc\<lparr>remoteDescription := Some d, signalingState := st\<rparr>) w"
  by (auto simp add: setRemoteDescription_def split: if_splits option.splits)

lemma clearCallTimeout_timeouts: "set (timeouts (clearCallTimeout w)) \<subseteq> set (timeouts w)"
  by (auto simp add: clearCallTimeout_def split: option.splits)

lemma endCall_timeouts: "set (timeouts (endCall r e w)) \<subseteq> set (timeouts w)"
  using clearCallTimeout_timeouts by (simp add: endCall_def endCallBegin_def)

section \<open>Evaluation\<close>

lemmas scenario_defs = alice0_def env_ok_def env_denied_def ringing_world_def call1_ringing_def
  call1_accepted_def call1_declined_def call0_ringing_def surfaced_world_def busy_world_def hungup_world_def
  connected_world_def inCall_world_def talking_world_def redelivered_world_def
  declined_world_def answering_world_def answering_pc_def first_click_world_def
  second_click_world_def double_ended_world_def

lemmas handler_defs = initiateCall_def negotiateOffer_def callPlaced_def initiateFailed_def
  acceptCall_def negotiateAnswer_def acceptFailed_def declineCall_def
  onCallSnapshot_def deliverCallSnapshot_def onRingTimeout_def fireTimeout_def
  onIncomingCalls_def onAutoDecline_def fireAutoDecline_def onicecandidate_def addIceCandidate_def
  readCandidates_def writeCandidates_def candidateField_def setCandidateField_def
  applyAnswer_def handleConnectionStateChange_def setLocalDescription_def setRemoteDescription_def
  localTransition_def remoteTransition_def endCall_def endCallBegin_def endCallFinish_def rejected_def
  toastInfoError_def resetState_def saveHistory_def markEnded_def cleanup_def callListenerOff_def
  clearCallTimeout_def
  unsubscribe_def addToCallHistory_def mkCallLog_def
  startTimer_def stopTimer_def resetTimer_def tick_def
  createPeerConnection_def update_pc_def requestMicrophoneAccess_def micErrorToast_def
  createCall_def svc_acceptCall_def svc_declineCall_def svc_endCall_def updateDoc_def
  render_of_def addToast_def addToasts_def setSessionStatus_def newCallData_def connectingSession_def
  photoOrEmpty_def

text \<open>The state after Alice placed her call, field by field.\<close>

lemma ringing_world_eval:
  "ringing_world =
     \<lparr>currentUser = Some ''alice'', userProfile = Some \<lparr>name = ''Alice'', photoURL = None\<rparr>,
      isInCall = False,
      currentCall = Some \<lparr>peerId = ''bob'', peerName = ''Bob'', peerPhoto = [], cs_duration = 0,
                           isMuted = False, cs_status = RingingOut\<rparr>,
      callHistory = [], incomingCall = None,
      callDuration = 0, intervalRef = None, intervals = [],
      peerConnectionRef = Some 0,
      pcs = [\<lparr>pc_callDoc = None, pc_isCaller = True, pc_closed = False, pc_trackCount = 1,
               signalingState = HaveLocalOffer,
               localDescription = Some \<lparr>sdp_type = ''offer'', sdp = ''o''\<rparr>,
               remoteDescription = None, appliedCandidates = []\<rparr>],
      localStreamRef = Some \<lparr>stream_id = 1, audioTrackCount = 1\<rparr>, remoteAudioSrc = None,
      currentCallDocRef = Some ''call1'', callTimeoutRef = Some 2, isCallerRef = True,
      callListenerRef = Some 1,
      subscriptions = [\<lparr>sub_handle = 1, sub_callId = ''call1'', sub_render = render_of alice0, sub_pc = 0\<rparr>],
      timeouts = [\<lparr>to_handle = 2, to_callId = ''call1'', to_render = render_of alice0, to_sub = 1\<rparr>],
      autoDeclines = [], nextHandle = 3,
      store = [''call1'' \<mapsto> call1_ringing], toasts = [ToastSuccess ''Calling Bob...''],
      rejections = []\<rparr>"
  by (simp add: scenario_defs handler_defs Let_def)

text \<open>The state three seconds into Alice's conversation with Bob, field by field.\<close>

lemma talking_world_eval:
  "talking_world =
     \<lparr>currentUser = Some ''alice'', userProfile = Some \<lparr>name = ''Alice'', photoURL = None\<rparr>,
      isInCall = True,
      currentCall = Some \<lparr>peerId = ''bob'', peerName = ''Bob'', peerPhoto = [], cs_duration = 0,
                           isMuted = False, cs_status = Connected\<rparr>,
      callHistory = [], incomingCall = None,
      callDuration = 3, intervalRef = Some 3, intervals = [3],
      peerConnectionRef = Some 0,
      pcs = [\<lparr>pc_callDoc = None, pc_isCaller = True, pc_closed = False, pc_trackCount = 1,
               signalingState = Stable,
               localDescription = Some \<lparr>sdp_type = ''offer'', sdp = ''o''\<rparr>,
               remoteDescription = Some \<lparr>sdp_type = ''answer'', sdp = ''a''\<rparr>,
               appliedCandidates = []\<rparr>],
      localStreamRef = Some \<lparr>stream_id = 1, audioTrackCount = 1\<rparr>, remoteAudioSrc = None,
      currentCallDocRef = Some ''call1'', callTimeoutRef = Some 2, isCallerRef = True,
      callListenerRef = Some 1,
      subscriptions = [\<lparr>sub_handle = 1, sub_callId = ''call1'', sub_render = render_of alice0, sub_pc = 0\<rparr>],
      timeouts = [\<lparr>to_handle = 2, to_callId = ''call1'', to_render = render_of alice0, to_sub = 1\<rparr>],
      autoDeclines = [], nextHandle = 4,
      store = [''call1'' \<mapsto> call1_accepted], toasts = [ToastSuccess ''Calling Bob...''],
      rejections = []\<rparr>"
  by (simp add: talking_world_def inCall_world_def connected_world_def ringing_world_eval
      deliverCallSnapshot_def onCallSnapshot_def applyAnswer_def setRemoteDescription_def
      remoteTransition_def update_pc_def startTimer_def setSessionStatus_def
      handleConnectionStateChange_def tick_def call1_accepted_def call1_ringing_def env_ok_def)

section \<open>Rejecting a second call\<close>

text \<open>
  Claim C6. When \<^verbatim>\<open>initiateCall\<close> is invoked while the client is in a call (a session exists
  or \<^verbatim>\<open>isInCall\<close> is set), a signed-in user gets the toast \<^verbatim>\<open>Already in a call\<close> and the
  function returns: the state after it is the state before it with that one toast added, so
  the session, the store, the peer connections, the subscriptions and the timers are
  untouched.
\<close>

theorem initiateCall_rejected_when_busy:
  assumes "isInCall w \<or> currentCall w \<noteq> None"
    and "currentUser w \<noteq> None" and "userProfile w \<noteq> None"
  shows "initiateCall (render_of w) e pid pname pphoto w
           = w\<lparr>toasts := toasts w @ [ToastError ''Already in a call'']\<rparr>"
  using assms by (auto simp add: initiateCall_def render_of_def addToast_def)

theorem initiateCall_rejected_when_busy_witness:
  "currentCall ringing_world \<noteq> None \<and> currentUser ringing_world \<noteq> None
   \<and> userProfile ringing_world \<noteq> None
   \<and> initiateCall (render_of ringing_world) env_ok ''carol'' ''Carol'' [] ringing_world
       = ringing_world\<lparr>toasts := toasts ringing_world @ [ToastError ''Already in a call'']\<rparr>"
  using initiateCall_rejected_when_busy [of ringing_world env_ok "''carol''" "''Carol''" "[]"]
  by (simp add: ringing_world_eval)

text \<open>
  Without a signed-in user the first check of \<^verbatim>\<open>initiateCall\<close> answers instead, and the
  state is as untouched.
\<close>

lemma initiateCall_signed_out:
  assumes "currentUser w = None \<or> userProfile w = None"
  shows "initiateCall (render_of w) e pid pname pphoto w
           = w\<lparr>toasts := toasts w @ [ToastError ''Please log in to make calls'']\<rparr>"
  using assms by (auto simp add: initiateCall_def render_of_def addToast_def split: option.splits)

section \<open>Ending a call twice\<close>

text \<open>
  What holds of a second \<^verbatim>\<open>endCall\<close>: called after an \<^verbatim>\<open>endCall\<close> that has run to its end,
  through the closure of the render that follows it, it appends no \<^verbatim>\<open>CallLog\<close>, writes
  nothing to the store and leaves the client idle; so it does on any idle client. Its
  promise is rejected all the same.
\<close>

lemma endCall_after_rerender:
  "callHistory (endCall (render_of (endCall r e w)) e' (endCall r e w)) = callHistory (endCall r e w)
   \<and> store (endCall (render_of (endCall r e w)) e' (endCall r e w)) = store (endCall r e w)
   \<and> idle (endCall (render_of (endCall r e w)) e' (endCall r e w))
   \<and> (idle w \<longrightarrow> callHistory (endCall (render_of w) e' w) = callHistory w
                 \<and> store (endCall (render_of w) e' w) = store w
                 \<and> idle (endCall (render_of w) e' w))"
  by (simp add: endCall_store_idle endCall_history_none render_of_def idle_def)

lemma endCall_rejects: "rejections (endCall r e w) = rejections w @ [TypeError ''toast.info is not a function'']"
  by (simp add: toastInfoError_def)

text \<open>One click on End, three seconds into the call, appends one entry.\<close>

lemma endCall_single_click:
  "map log_status (callHistory (endCall (render_of talking_world) env_ok talking_world)) = [Completed]"
  by (simp add: talking_world_eval endCall_def endCallFinish_def saveHistory_def render_of_def
      addToCallHistory_def mkCallLog_def)

lemma first_click_world_eval:
  "render_of first_click_world = render_of talking_world"
  "currentUser first_click_world = currentUser talking_world"
  "userProfile first_click_world = userProfile talking_world"
  "isInCall first_click_world = isInCall talking_world"
  "incomingCall first_click_world = incomingCall talking_world"
  "callDuration first_click_world = callDuration talking_world"
  "currentCallDocRef first_click_world = Some ''call1''"
  "currentCall first_click_world = currentCall talking_world"
  "isCallerRef first_click_world = True"
  "callHistory first_click_world = []"
  "rejections first_click_world = []"
  "store first_click_world = [''call1'' \<mapsto> call1_accepted\<lparr>status := Ended, duration := Some 3\<rparr>]"
  by (simp_all add: first_click_world_def talking_world_eval endCallBegin_def markEnded_def
      svc_endCall_def updateDoc_def render_of_def env_ok_def)

lemma second_click_world_eval:
  "currentCallDocRef second_click_world = Some ''call1''"
  "isCallerRef second_click_world = True"
  "callHistory second_click_world = []"
  "rejections second_click_world = []"
  "store second_click_world = [''call1'' \<mapsto> call1_accepted\<lparr>status := Ended, duration := Some 3\<rparr>]"
  by (simp_all add: second_click_world_def first_click_world_eval endCallBegin_def markEnded_def
      svc_endCall_def updateDoc_def render_of_def env_ok_def talking_world_eval)

text \<open>
  Claim C8 asks that a second \<^verbatim>\<open>endCall\<close> in succession appends no second \<^verbatim>\<open>CallLog\<close>, makes
  no second status write and throws no error. Alice is three seconds into her call with Bob
  and clicks End twice, the second time while the first \<^verbatim>\<open>endCall\<close> awaits its store write.
  No state has changed, so the second click runs the same closure. The document ref is
  still set, so the second call sends its own write, which the store accepts; both calls
  then append a \<^verbatim>\<open>CallLog\<close>, and the promise of each is rejected with a \<^verbatim>\<open>TypeError\<close>. So
  is the promise of an \<^verbatim>\<open>endCall\<close> on an idle client.
\<close>

theorem endCall_second_click_repeats:
  "isInCall talking_world
   \<and> map_option cs_status (currentCall talking_world) = Some Connected
   \<and> callHistory talking_world = []
   \<and> render_of first_click_world = render_of talking_world
   \<and> currentCallDocRef first_click_world = Some ''call1''
   \<and> map_option status (store first_click_world ''call1'') = Some Ended
   \<and> svc_endCall env_ok ''call1'' 3 (store first_click_world) = Inr (store second_click_world)
   \<and> map log_status (callHistory double_ended_world) = [Completed, Completed]
   \<and> rejections double_ended_world
       = [TypeError ''toast.info is not a function'', TypeError ''toast.info is not a function'']
   \<and> rejections (endCall (render_of alice0) env_ok alice0) = [TypeError ''toast.info is not a function'']"
  by (simp add: double_ended_world_def second_click_world_eval first_click_world_eval
      talking_world_eval endCallFinish_def saveHistory_def render_of_def addToCallHistory_def
      mkCallLog_def svc_endCall_def updateDoc_def env_ok_def toastInfoError_def alice0_def)

section \<open>A refused microphone\<close>

lemma mic_rejected: "micOutcome e = GetUserMediaRejected n m \<Longrightarrow> snd (requestMicrophoneAccess e) = None"
  by (simp add: requestMicrophoneAccess_def)

text \<open>
  Claim C9. When \<^verbatim>\<open>initiateCall\<close> passes its checks and the microphone request fails
  (\<^verbatim>\<open>requestMicrophoneAccess\<close> returns \<^verbatim>\<open>null\<close>, as it does for a denied permission), the
  store is not written, no peer connection is created and none is referenced, no
  subscription or timeout is registered, no stream is kept, and the session is cleared.
\<close>

theorem initiateCall_mic_failure:
  assumes "\<not> isInCall w" and "currentCall w = None" and "snd (requestMicrophoneAccess e) = None"
  shows "store (initiateCall (render_of w) e pid pname pphoto w) = store w
     \<and> pcs (initiateCall (render_of w) e pid pname pphoto w) = pcs w
     \<and> peerConnectionRef (initiateCall (render_of w) e pid pname pphoto w) = peerConnectionRef w
     \<and> subscriptions (initiateCall (render_of w) e pid pname pphoto w) = subscriptions w
     \<and> timeouts (initiateCall (render_of w) e pid pname pphoto w) = timeouts w
     \<and> localStreamRef (initiateCall (render_of w) e pid pname pphoto w) = localStreamRef w
     \<and> currentCall (initiateCall (render_of w) e pid pname pphoto w) = None
     \<and> \<not> isInCall (initiateCall (render_of w) e pid pname pphoto w)"
proof -
  obtain ts where mic: "requestMicrophoneAccess e = (ts, None)"
    using assms(3) by (cases "requestMicrophoneAccess e") simp
  show ?thesis
    by (simp add: initiateCall_def render_of_def assms(1,2) mic Let_def split: option.splits)
qed

theorem initiateCall_mic_failure_witness:
  "\<not> isInCall alice0 \<and> currentCall alice0 = None
   \<and> micOutcome env_denied = GetUserMediaRejected ''NotAllowedError'' ''Permission denied''
   \<and> snd (requestMicrophoneAccess env_denied) = None
   \<and> store (initiateCall (render_of alice0) env_denied ''bob'' ''Bob'' [] alice0) = store alice0
   \<and> pcs (initiateCall (render_of alice0) env_denied ''bob'' ''Bob'' [] alice0) = []
   \<and> peerConnectionRef (initiateCall (render_of alice0) env_denied ''bob'' ''Bob'' [] alice0) = None
   \<and> currentCall (initiateCall (render_of alice0) env_denied ''bob'' ''Bob'' [] alice0) = None"
  using initiateCall_mic_failure [of alice0 env_denied "''bob''" "''Bob''" "[]"]
    mic_rejected [of env_denied "''NotAllowedError''" "''Permission denied''"]
  by (simp add: alice0_def env_denied_def env_ok_def)

section \<open>The ring timeout\<close>

lemma endCall_timeoutsD: "t \<in> set (timeouts (endCall r e w)) \<Longrightarrow> t \<in> set (timeouts w)"
  using endCall_timeouts by blast

lemma initiateFailed_timeoutsD: "t \<in> set (timeouts (initiateFailed r e w)) \<Longrightarrow> t \<in> set (timeouts w)"
  by (auto simp add: initiateFailed_def dest!: endCall_timeoutsD)

lemma callPlaced_timeouts:
  "t \<in> set (timeouts (callPlaced r pname i cid w)) \<Longrightarrow> t \<in> set (timeouts w) \<or> to_render t = r"
  by (auto simp add: callPlaced_def Let_def)

lemma negotiateOffer_timeouts:
  "t \<in> set (timeouts (negotiateOffer r e uid prof pid pname pphoto stream w)) \<Longrightarrow>
     t \<in> set (timeouts w) \<or> to_render t = r"
  by (auto simp add: negotiateOffer_def createPeerConnection_def Let_def
      split: option.splits sum.splits prod.splits if_splits
      dest!: initiateFailed_timeoutsD callPlaced_timeouts setLocalDescription_SomeD)

text \<open>
  Every timeout that a call of \<^verbatim>\<open>initiateCall\<close> registers belongs to a render in which
  \<^verbatim>\<open>currentCall\<close> is \<^verbatim>\<open>null\<close> (the guard let the call through), and the callback of such a
  timeout changes nothing, whatever the state it fires in.
\<close>

lemma initiateCall_timeouts:
  assumes "t \<in> set (timeouts (initiateCall r e pid pname pphoto w))"
  shows "t \<in> set (timeouts w) \<or> r_currentCall (to_render t) = None"
  using assms
  by (auto simp add: initiateCall_def Let_def
      split: option.splits sum.splits prod.splits if_splits
      dest!: negotiateOffer_timeouts)

lemma onRingTimeout_stale: "r_currentCall (to_render t) = None \<Longrightarrow> onRingTimeout e t w = w"
  by (simp add: onRingTimeout_def)

lemma ring_timeout_inert:
  assumes "t \<in> set (timeouts (initiateCall r e pid pname pphoto w))" and "t \<notin> set (timeouts w)"
  shows "onRingTimeout e' t w' = w'"
  using initiateCall_timeouts [OF assms(1)] assms(2) onRingTimeout_stale by blast

text \<open>
  Claim C2 asks that an outgoing call still ringing after 60 seconds returns to idle and
  that its record becomes \<^verbatim>\<open>ended\<close>. Alice's call to Bob is ringing and nothing arrived from
  Bob; its timeout (handle 2) fires. The callback finds \<^verbatim>\<open>currentCall?.status\<close> undefined
  in its closure: the session is still \<^verbatim>\<open>ringing\<close>, the record is still \<^verbatim>\<open>ringing\<close>, and
  only the pending timeout is gone.
\<close>

theorem ring_timeout_does_not_end_call:
  "map_option cs_status (currentCall ringing_world) = Some RingingOut
   \<and> map to_handle (timeouts ringing_world) = [2]
   \<and> fireTimeout env_ok 2 ringing_world = ringing_world\<lparr>timeouts := []\<rparr>
   \<and> map_option cs_status (currentCall (fireTimeout env_ok 2 ringing_world)) = Some RingingOut
   \<and> map_option status (store (fireTimeout env_ok 2 ringing_world) ''call1'') = Some Ringing"
  by (simp add: ringing_world_eval fireTimeout_def onRingTimeout_def render_of_def alice0_def
      call1_ringing_def)

section \<open>Accepting while in a call\<close>

text \<open>
  Claim C7 asks that \<^verbatim>\<open>acceptCall\<close> is rejected with \<^verbatim>\<open>Already in a call\<close> when the client
  is in a call. Carol's call was surfaced while Alice was idle, then Alice placed her own
  call to Bob, which is ringing; now she accepts. \<^verbatim>\<open>acceptCall\<close> checks \<^verbatim>\<open>incomingCall\<close> and
  \<^verbatim>\<open>currentUser\<close> only: the session with Bob is replaced by one with Carol, a second peer
  connection is created while the first stays open, the microphone stream is taken, the
  record of Carol's call is written \<^verbatim>\<open>accepted\<close>, and the only toast is \<^verbatim>\<open>Call accepted\<close>.
\<close>

theorem acceptCall_while_ringing_out:
  "map_option peerId (currentCall busy_world) = Some ''bob''
   \<and> map_option call_id (incomingCall busy_world) = Some ''call0''
   \<and> map_option peerId (currentCall (acceptCall (render_of busy_world) env_ok busy_world)) = Some ''carol''
   \<and> map pc_closed (pcs busy_world) = [False]
   \<and> map pc_closed (pcs (acceptCall (render_of busy_world) env_ok busy_world)) = [False, False]
   \<and> peerConnectionRef (acceptCall (render_of busy_world) env_ok busy_world) = Some 1
   \<and> map_option status (store (acceptCall (render_of busy_world) env_ok busy_world) ''call0'') = Some Accepted
   \<and> toasts (acceptCall (render_of busy_world) env_ok busy_world)
       = toasts busy_world @ [ToastSuccess ''Call accepted'']"
  by (simp add: scenario_defs handler_defs Let_def)

section \<open>Repeated delivery of the accepted snapshot\<close>

text \<open>
  The first delivery of the accepted snapshot finds the caller's connection with its local
  offer: the answer is applied, the session becomes \<^verbatim>\<open>connected\<close>, the timer starts from 0
  with one more interval, and the connection is stable.
\<close>

lemma accepted_snapshot_connects:
  assumes "status callData = Accepted" and "answer callData = Some ans" and "sdp_type ans = ''answer''"
    and "sub_pc sub < length (pcs w)" and "\<not> pc_closed (pcs w ! sub_pc sub)"
    and "signalingState (pcs w ! sub_pc sub) = HaveLocalOffer" and "setRemoteDescriptionOk e"
    and "currentCall w = Some s"
  shows "currentCall (onCallSnapshot e sub (Some callData) w) = Some (s\<lparr>cs_status := Connected\<rparr>)
       \<and> callDuration (onCallSnapshot e sub (Some callData) w) = 0
       \<and> intervals (onCallSnapshot e sub (Some callData) w) = intervals w @ [nextHandle w]
       \<and> signalingState (pcs (onCallSnapshot e sub (Some callData) w) ! sub_pc sub) = Stable"
  using assms
  by (simp add: onCallSnapshot_def applyAnswer_def setRemoteDescription_def remoteTransition_def
      update_pc_def)

text \<open>
  A delivery that finds the connection in any other state, as every later one does, has
  its answer rejected by the connection: the \<^verbatim>\<open>catch\<close> block toasts and ends the call.
\<close>

lemma accepted_snapshot_again_ends:
  assumes "status callData = Accepted" and "answer callData = Some ans" and "sdp_type ans = ''answer''"
    and "signalingState (pcs w ! sub_pc sub) \<noteq> HaveLocalOffer"
  shows "onCallSnapshot e sub (Some callData) w
           = endCall (sub_render sub) e (addToast (ToastError ''Failed to establish connection'') w)"
  using assms
  by (simp add: onCallSnapshot_def applyAnswer_def setRemoteDescription_def remoteTransition_def)

text \<open>
  Claim C3 asks that a repeated delivery of the accepted snapshot changes nothing: the
  session stays connected and the elapsed duration keeps running. Alice is three seconds
  into her call with Bob, her connection stable, and the snapshot she already handled is
  delivered again. The connection rejects the answer, the callback toasts
  \<^verbatim>\<open>Failed to establish connection\<close> and calls \<^verbatim>\<open>endCall\<close>: the session is gone, the timer
  stopped and the duration back at 0, the subscription closed and the record \<^verbatim>\<open>ended\<close>.
\<close>

theorem accepted_redelivery_ends_call:
  "map_option cs_status (currentCall talking_world) = Some Connected
   \<and> callDuration talking_world = 3
   \<and> intervals talking_world = [3]
   \<and> map signalingState (pcs talking_world) = [Stable]
   \<and> map_option status (store talking_world ''call1'') = Some Accepted
   \<and> currentCall redelivered_world = None
   \<and> callDuration redelivered_world = 0
   \<and> intervals redelivered_world = []
   \<and> subscriptions redelivered_world = []
   \<and> map_option status (store redelivered_world ''call1'') = Some Ended
   \<and> toasts redelivered_world = toasts talking_world @ [ToastError ''Failed to establish connection'']"
  by (simp add: redelivered_world_def talking_world_eval deliverCallSnapshot_def onCallSnapshot_def
      applyAnswer_def setRemoteDescription_def remoteTransition_def call1_accepted_def
      call1_ringing_def env_ok_def endCall_def endCallBegin_def endCallFinish_def markEnded_def
      saveHistory_def resetState_def resetTimer_def stopTimer_def cleanup_def callListenerOff_def
      clearCallTimeout_def unsubscribe_def update_pc_def rejected_def addToast_def
      svc_endCall_def updateDoc_def render_of_def alice0_def)

section \<open>The outcome of a declined call\<close>

text \<open>
  Claim C4, as amended. When the caller's subscription observes status \<^verbatim>\<open>declined\<close>, the
  call is ended through \<^verbatim>\<open>endCall\<close>: the session is cleared and \<^verbatim>\<open>isInCall\<close> unset. The
  history grows by at most one entry, and an entry that \<^verbatim>\<open>endCall\<close> appends has the status
  \<^verbatim>\<open>completed\<close>, however the call ended.
\<close>

theorem declined_snapshot_ends_call:
  assumes "status callData = Declined"
  shows "currentCall (onCallSnapshot e sub (Some callData) w) = None
       \<and> \<not> isInCall (onCallSnapshot e sub (Some callData) w)
       \<and> (\<exists>ls. callHistory (onCallSnapshot e sub (Some callData) w) = ls @ callHistory w
                \<and> length ls \<le> 1 \<and> list_all (\<lambda>l. log_status l = Completed) ls)"
  using assms endCall_history [of "sub_render sub" e "addToast (ToastError ''Call declined'') w"]
  by (simp add: onCallSnapshot_def)

theorem declined_snapshot_ends_call_witness:
  "status call1_declined = Declined
   \<and> currentCall (onCallSnapshot env_ok (hd (subscriptions ringing_world)) (Some call1_declined) ringing_world) = None
   \<and> \<not> isInCall (onCallSnapshot env_ok (hd (subscriptions ringing_world)) (Some call1_declined) ringing_world)
   \<and> (\<exists>ls. callHistory (onCallSnapshot env_ok (hd (subscriptions ringing_world)) (Some call1_declined) ringing_world)
              = ls @ callHistory ringing_world
            \<and> length ls \<le> 1 \<and> list_all (\<lambda>l. log_status l = Completed) ls)"
  using declined_snapshot_ends_call [of call1_declined env_ok "hd (subscriptions ringing_world)" ringing_world]
  by (simp add: call1_declined_def call1_ringing_def)

text \<open>
  The claim as stated fails: Bob declines Alice's ringing call. Her client ends the call and
  marks the record \<^verbatim>\<open>ended\<close>, and her history holds no entry at all, so none with the status
  \<^verbatim>\<open>declined\<close>.
\<close>

theorem declined_call_counterexample:
  "currentCall declined_world = None
   \<and> map_option status (store declined_world ''call1'') = Some Ended
   \<and> callHistory declined_world = []"
  by (simp add: declined_world_def ringing_world_eval deliverCallSnapshot_def onCallSnapshot_def
      call1_declined_def call1_ringing_def env_ok_def endCall_def endCallBegin_def
      endCallFinish_def saveHistory_def markEnded_def svc_endCall_def updateDoc_def render_of_def
      alice0_def)

section \<open>The order of the record's status\<close>

text \<open>
  Claim C5, as amended. The status of a record is written without regard to its current
  value: on any record that exists, \<^verbatim>\<open>CallService.declineCall\<close> sets \<^verbatim>\<open>declined\<close>,
  \<^verbatim>\<open>CallService.acceptCall\<close> sets \<^verbatim>\<open>accepted\<close> and \<^verbatim>\<open>CallService.endCall\<close> sets \<^verbatim>\<open>ended\<close>,
  and the receiver's 30 second auto-decline writes \<^verbatim>\<open>declined\<close> whenever the call it was set
  for is still the surfaced one. The order ringing, accepted or declined, ended is the order
  of an undisturbed call; no operation checks it.
\<close>

theorem status_writes_unconditional:
  assumes "storeUp e" and "store w cid = Some d"
  shows "svc_declineCall e cid (store w) = Inr ((store w)(cid \<mapsto> d\<lparr>status := Declined\<rparr>))
       \<and> svc_acceptCall e cid ans (store w)
           = Inr ((store w)(cid \<mapsto> d\<lparr>status := Accepted,
                                       answer := Some \<lparr>sdp_type = sdp_type ans, sdp = sdp ans\<rparr>\<rparr>))
       \<and> svc_endCall e cid dur (store w) = Inr ((store w)(cid \<mapsto> d\<lparr>status := Ended, duration := Some dur\<rparr>))
       \<and> (map_option call_id (incomingCall w) = Some cid \<longrightarrow>
            store (onAutoDecline e cid w) = (store w)(cid \<mapsto> d\<lparr>status := Declined\<rparr>))"
  using assms
  by (simp add: svc_declineCall_def svc_acceptCall_def svc_endCall_def updateDoc_def onAutoDecline_def)

lemma hungup_world_eval:
  "store hungup_world = [''call0'' \<mapsto> call0_ringing\<lparr>status := Ended, duration := Some 0\<rparr>]"
  "incomingCall hungup_world = Some call0_ringing"
  "autoDeclines hungup_world = [''call0'']"
  by (simp_all add: hungup_world_def surfaced_world_def onIncomingCalls_def render_of_def alice0_def
      svc_endCall_def updateDoc_def env_ok_def call0_ringing_def)

theorem status_writes_unconditional_witness:
  "storeUp env_ok
   \<and> map_option status (store hungup_world ''call0'') = Some Ended
   \<and> map_option call_id (incomingCall hungup_world) = Some ''call0''
   \<and> svc_declineCall env_ok ''call0'' (store hungup_world)
       = Inr ((store hungup_world)(''call0'' \<mapsto> call0_ringing\<lparr>status := Declined, duration := Some 0\<rparr>))
   \<and> store (onAutoDecline env_ok ''call0'' hungup_world)
       = (store hungup_world)(''call0'' \<mapsto> call0_ringing\<lparr>status := Declined, duration := Some 0\<rparr>)"
  using status_writes_unconditional [of env_ok hungup_world "''call0''"
      "call0_ringing\<lparr>status := Ended, duration := Some 0\<rparr>"]
  by (simp add: hungup_world_eval env_ok_def call0_ringing_def)

text \<open>
  The claim as stated fails: Carol's call is surfaced on Alice's client, Carol hangs up
  within the 30 seconds (the record is \<^verbatim>\<open>ended\<close>), the surfaced call stays, and the
  auto-decline timeout fires. The record goes from \<^verbatim>\<open>ended\<close> to \<^verbatim>\<open>declined\<close>.
\<close>

theorem auto_decline_after_ended_counterexample:
  "map_option status (store hungup_world ''call0'') = Some Ended
   \<and> map_option status (store (fireAutoDecline env_ok ''call0'' hungup_world) ''call0'') = Some Declined"
  by (simp add: hungup_world_eval fireAutoDecline_def onAutoDecline_def svc_declineCall_def
      updateDoc_def env_ok_def call0_ringing_def)

section \<open>Appending candidates\<close>

lemma stepAppend_first:
  assumes "storeUp e" and "appendInv cid d c1 c2 (p, q, st)" and "stepAppend e p st = (p', st')"
  shows "appendInv cid d c1 c2 (p', q, st')"
  using assms
  by (cases "ap_phase p")
     (auto simp add: appendInv_def phaseOk_def stepAppend_def readCandidates_def writeCandidates_def
        updateDoc_def candidateField_def setCandidateField_def split: option.splits append_phase.splits)

lemma stepAppend_second:
  assumes "storeUp e" and "appendInv cid d c1 c2 (p, q, st)" and "stepAppend e q st = (q', st')"
  shows "appendInv cid d c1 c2 (p, q', st')"
  using assms
  by (cases "ap_phase q")
     (auto simp add: appendInv_def phaseOk_def stepAppend_def readCandidates_def writeCandidates_def
        updateDoc_def candidateField_def setCandidateField_def split: option.splits append_phase.splits)

lemma runAppends_inv:
  assumes "storeUp e"
  shows "appendInv cid d c1 c2 cfg \<Longrightarrow> appendInv cid d c1 c2 (runAppends e sched cfg)"
proof (induction sched arbitrary: cfg)
  case Nil
  then show ?case by simp
next
  case (Cons b sched)
  obtain p q st where cfg: "cfg = (p, q, st)" by (cases cfg) auto
  show ?case
  proof (cases b)
    case True
    obtain p' st' where s: "stepAppend e p st = (p', st')" by (cases "stepAppend e p st") auto
    with Cons.prems cfg assms have "appendInv cid d c1 c2 (p', q, st')"
      using stepAppend_first by blast
    then show ?thesis using Cons.IH cfg True s by simp
  next
    case False
    obtain q' st' where s: "stepAppend e q st = (q', st')" by (cases "stepAppend e q st") auto
    with Cons.prems cfg assms have "appendInv cid d c1 c2 (p, q', st')"
      using stepAppend_second by blast
    then show ?thesis using Cons.IH cfg False s by simp
  qed
qed

text \<open>
  Claim C10, as amended. The append of a candidate is a read of the record followed by a
  write of the party's whole array with the candidate at its end, not an atomic append.
  The caller writes \<^verbatim>\<open>callerCandidates\<close> and the receiver \<^verbatim>\<open>receiverCandidates\<close>, and a write
  replaces one field only: when one append of each party to the same existing record
  overlap, in whatever order their four requests reach a reachable store, both candidates
  are at the end of their arrays once both appends are done.
\<close>

theorem appends_to_different_arrays_survive:
  assumes "storeUp e" and "st cid = Some d"
    and "ap_phase (fst (runAppends e sched (newAppend cid c1 True, newAppend cid c2 False, st))) = Done"
    and "ap_phase (fst (snd (runAppends e sched (newAppend cid c1 True, newAppend cid c2 False, st)))) = Done"
  shows "\<exists>d'. snd (snd (runAppends e sched (newAppend cid c1 True, newAppend cid c2 False, st))) cid = Some d'
              \<and> callerCandidates d' = callerCandidates d @ [c1]
              \<and> receiverCandidates d' = receiverCandidates d @ [c2]"
proof -
  obtain p q st' where run: "runAppends e sched (newAppend cid c1 True, newAppend cid c2 False, st) = (p, q, st')"
    by (cases "runAppends e sched (newAppend cid c1 True, newAppend cid c2 False, st)") auto
  have "appendInv cid d c1 c2 (newAppend cid c1 True, newAppend cid c2 False, st)"
    using assms(2) by (simp add: appendInv_def phaseOk_def newAppend_def)
  then have "appendInv cid d c1 c2 (p, q, st')"
    using runAppends_inv [OF assms(1)] run by metis
  then show ?thesis
    using assms(3,4) run by (auto simp add: appendInv_def phaseOk_def split: option.splits)
qed

lemmas append_defs = newAppend_def stepAppend_def readCandidates_def writeCandidates_def updateDoc_def
  candidateField_def setCandidateField_def

theorem appends_to_different_arrays_survive_witness:
  "storeUp env_ok \<and> store ringing_world ''call1'' = Some call1_ringing
   \<and> ap_phase (fst (runAppends env_ok [True, False, True, False]
        (newAppend ''call1'' ''c1'' True, newAppend ''call1'' ''c2'' False, store ringing_world))) = Done
   \<and> ap_phase (fst (snd (runAppends env_ok [True, False, True, False]
        (newAppend ''call1'' ''c1'' True, newAppend ''call1'' ''c2'' False, store ringing_world)))) = Done
   \<and> (\<exists>d'. snd (snd (runAppends env_ok [True, False, True, False]
        (newAppend ''call1'' ''c1'' True, newAppend ''call1'' ''c2'' False, store ringing_world))) ''call1'' = Some d'
        \<and> callerCandidates d' = [''c1''] \<and> receiverCandidates d' = [''c2''])"
  using appends_to_different_arrays_survive [of env_ok "store ringing_world" "''call1''" call1_ringing
      "[True, False, True, False]" "''c1''" "''c2''"]
  by (simp add: ringing_world_eval append_defs env_ok_def call1_ringing_def)

text \<open>
  The claim as stated fails: the append is not atomic. Two candidates of the caller are
  appended to \<^verbatim>\<open>call1\<close> and both appends read before either writes. Both are done, and the
  array holds the second candidate only.
\<close>

theorem overlapping_appends_counterexample:
  "ap_phase (fst (runAppends env_ok [True, False, True, False]
        (newAppend ''call1'' ''c1'' True, newAppend ''call1'' ''c2'' True, store ringing_world))) = Done
   \<and> ap_phase (fst (snd (runAppends env_ok [True, False, True, False]
        (newAppend ''call1'' ''c1'' True, newAppend ''call1'' ''c2'' True, store ringing_world)))) = Done
   \<and> map_option callerCandidates (snd (snd (runAppends env_ok [True, False, True, False]
        (newAppend ''call1'' ''c1'' True, newAppend ''call1'' ''c2'' True, store ringing_world))) ''call1'')
       = Some [''c2'']"
  by (simp add: ringing_world_eval append_defs env_ok_def call1_ringing_def)

section \<open>Exchanging candidates\<close>

lemma update_pc_applied:
  assumes "\<And>pc. appliedCandidates (f pc) = appliedCandidates pc"
  shows "map appliedCandidates (pcs (update_pc i f w)) = map appliedCandidates (pcs w)"
proof (cases "i < length (pcs w)")
  case True
  then show ?thesis
    by (simp add: update_pc_def map_update assms list_update_same_conv)
next
  case False
  then show ?thesis by (simp add: update_pc_def list_update_beyond)
qed

lemma noCandidateApplied_map: "noCandidateApplied w = list_all (\<lambda>cs. cs = []) (map appliedCandidates (pcs w))"
  by (simp add: noCandidateApplied_def list_all_iff)

lemma cleanup_applied: "map appliedCandidates (pcs (cleanup w)) = map appliedCandidates (pcs w)"
  by (simp add: cleanup_def Let_def update_pc_applied split: option.splits)

lemma endCall_applied: "map appliedCandidates (pcs (endCall r e w)) = map appliedCandidates (pcs w)"
  by (simp add: endCall_def endCallBegin_def cleanup_applied)

lemma setRemoteDescription_applied:
  "setRemoteDescription e i d w = Some w' \<Longrightarrow>
     map appliedCandidates (pcs w') = map appliedCandidates (pcs w)"
  by (auto dest!: setRemoteDescription_SomeD simp add: update_pc_applied)

lemma applyAnswer_applied:
  "map appliedCandidates (pcs (applyAnswer e sub ans w)) = map appliedCandidates (pcs w)"
  by (cases "setRemoteDescription e (sub_pc sub) ans w")
     (simp_all add: applyAnswer_def endCall_applied setRemoteDescription_applied)

lemma onCallSnapshot_applied:
  "map appliedCandidates (pcs (onCallSnapshot e sub snapshot w)) = map appliedCandidates (pcs w)"
  by (simp add: onCallSnapshot_def endCall_applied applyAnswer_applied split: option.splits)

lemma update_pc_last: "i = length xs \<Longrightarrow> pcs w = xs @ [p] \<Longrightarrow> pcs (update_pc i f w) = xs @ [f p]"
  by (simp add: update_pc_def)

lemma negotiateAnswer_pcs:
  "\<exists>pc. pcs (negotiateAnswer r e inc stream w) = pcs w @ [pc] \<and> pc_callDoc pc = Some (call_id inc)
        \<and> pc_isCaller pc = isCallerRef w \<and> appliedCandidates pc = []"
  by (auto simp add: negotiateAnswer_def createPeerConnection_def acceptFailed_def Let_def update_pc_last
      split: option.splits sum.splits
      dest!: setRemoteDescription_SomeD setLocalDescription_SomeD)

lemma acceptCall_created:
  assumes "r_incomingCall r = Some inc"
  shows "list_all (\<lambda>pc. pc_callDoc pc = Some (call_id inc) \<and> \<not> pc_isCaller pc \<and> appliedCandidates pc = [])
           (createdPcs w (acceptCall r e w))
         \<and> take (length (pcs w)) (pcs (acceptCall r e w)) = pcs w"
proof (cases "r_currentUser r")
  case None
  then show ?thesis by (simp add: acceptCall_def assms createdPcs_def)
next
  case (Some uid)
  show ?thesis
  proof (cases "requestMicrophoneAccess e")
    case (Pair ts so)
    show ?thesis
    proof (cases so)
      case None
      then show ?thesis by (simp add: acceptCall_def assms Some Pair createdPcs_def Let_def)
    next
      case (Some stream)
      let ?w1 = "addToasts ts (w\<lparr>isCallerRef := False,
                  currentCall := Some (connectingSession (callerId inc) (callerName inc) (callerPhoto inc))\<rparr>)"
      obtain pc where "pcs (negotiateAnswer r e inc stream ?w1) = pcs ?w1 @ [pc]"
        "pc_callDoc pc = Some (call_id inc)" "pc_isCaller pc = isCallerRef ?w1" "appliedCandidates pc = []"
        using negotiateAnswer_pcs by blast
      then show ?thesis
        by (simp add: acceptCall_def assms \<open>r_currentUser r = Some uid\<close> Pair Some createdPcs_def Let_def)
    qed
  qed
qed

lemma receiver_candidate_pushed:
  assumes "pc_callDoc pc = Some cid" "cid \<noteq> []" "\<not> pc_isCaller pc" "storeUp e" "store w cid = Some d"
  shows "store (onicecandidate e pc (Some c) w) = (store w)(cid \<mapsto> d\<lparr>receiverCandidates := receiverCandidates d @ [c]\<rparr>)"
  using assms
  by (simp add: onicecandidate_def addIceCandidate_def readCandidates_def writeCandidates_def
      updateDoc_def candidateField_def setCandidateField_def)

lemma caller_candidate_dropped:
  assumes "pc_callDoc pc = None"
  shows "onicecandidate e pc ev w = w"
  using assms by (simp add: onicecandidate_def split: option.splits)

lemma acceptCall_applied:
  assumes "noCandidateApplied w"
  shows "noCandidateApplied (acceptCall r e w)"
proof (cases "r_incomingCall r")
  case None
  then show ?thesis using assms by (simp add: acceptCall_def)
next
  case (Some inc)
  from acceptCall_created [OF Some, of w e]
  have new: "list_all (\<lambda>pc. appliedCandidates pc = []) (createdPcs w (acceptCall r e w))"
    and old: "take (length (pcs w)) (pcs (acceptCall r e w)) = pcs w"
    by (simp_all add: list_all_iff)
  have "pcs (acceptCall r e w) = pcs w @ createdPcs w (acceptCall r e w)"
    using old append_take_drop_id [of "length (pcs w)" "pcs (acceptCall r e w)"]
    by (simp add: createdPcs_def)
  then show ?thesis using assms new by (simp add: noCandidateApplied_def)
qed

text \<open>
  Claim C1, as amended. On the accepting side the peer connection is created with the id of
  the incoming call and as the receiver's, and each candidate it discovers is appended to
  \<^verbatim>\<open>receiverCandidates\<close> of that record when the record exists and the store is reachable.
  No candidate of the record is given to a peer connection: the callback of the caller's
  subscription leaves the applied candidates of every connection as they are, and so does
  \<^verbatim>\<open>acceptCall\<close>, whose new connection has none.
\<close>

theorem receiver_candidates_pushed_none_applied:
  "(r_incomingCall r = Some inc \<longrightarrow>
      list_all (\<lambda>pc. pc_callDoc pc = Some (call_id inc) \<and> \<not> pc_isCaller pc)
        (createdPcs w (acceptCall r e w)))
   \<and> (pc_callDoc pc = Some cid \<and> cid \<noteq> [] \<and> \<not> pc_isCaller pc \<and> storeUp e \<and> store w cid = Some d \<longrightarrow>
      store (onicecandidate e pc (Some c) w)
        = (store w)(cid \<mapsto> d\<lparr>receiverCandidates := receiverCandidates d @ [c]\<rparr>))
   \<and> map appliedCandidates (pcs (onCallSnapshot e sub snapshot w)) = map appliedCandidates (pcs w)
   \<and> (noCandidateApplied w \<longrightarrow> noCandidateApplied (acceptCall r e w))"
proof -
  have "r_incomingCall r = Some inc \<Longrightarrow>
      list_all (\<lambda>pc. pc_callDoc pc = Some (call_id inc) \<and> \<not> pc_isCaller pc)
        (createdPcs w (acceptCall r e w))"
    using acceptCall_created [of r inc w e] by (simp add: list_all_iff)
  then show ?thesis
    using receiver_candidate_pushed [of pc cid e w d c] onCallSnapshot_applied acceptCall_applied
    by blast
qed

lemma answering_world_eval:
  "pcs answering_world = [answering_pc]"
  "store answering_world ''call0''
     = Some (call0_ringing\<lparr>status := Accepted, answer := Some \<lparr>sdp_type = ''answer'', sdp = ''a''\<rparr>\<rparr>)"
  by (simp_all add: scenario_defs handler_defs Let_def)

theorem receiver_candidates_pushed_none_applied_witness:
  "r_incomingCall (render_of surfaced_world) = Some call0_ringing
   \<and> createdPcs surfaced_world answering_world = [answering_pc]
   \<and> list_all (\<lambda>pc. pc_callDoc pc = Some ''call0'' \<and> \<not> pc_isCaller pc) (createdPcs surfaced_world answering_world)
   \<and> storeUp env_ok
   \<and> map_option receiverCandidates (store (onicecandidate env_ok answering_pc (Some ''rc1'') answering_world) ''call0'')
       = Some [''rc1'']
   \<and> noCandidateApplied surfaced_world
   \<and> noCandidateApplied answering_world"
  using receiver_candidates_pushed_none_applied [of "render_of surfaced_world" call0_ringing surfaced_world env_ok
      answering_pc "''call0''" "call0_ringing\<lparr>status := Accepted, answer := Some \<lparr>sdp_type = ''answer'', sdp = ''a''\<rparr>\<rparr>"
      "''rc1''"]
    receiver_candidates_pushed_none_applied [of "render_of surfaced_world" call0_ringing answering_world env_ok
      answering_pc "''call0''" "call0_ringing\<lparr>status := Accepted, answer := Some \<lparr>sdp_type = ''answer'', sdp = ''a''\<rparr>\<rparr>"
      "''rc1''"]
  by (simp add: answering_world_eval answering_world_def [symmetric] createdPcs_def noCandidateApplied_def
      surfaced_world_def onIncomingCalls_def render_of_def alice0_def answering_pc_def env_ok_def
      call0_ringing_def)

text \<open>
  The claim as stated fails on both counts. Alice's connection for her call to Bob was
  created before the record existed: a candidate it discovers leaves \<^verbatim>\<open>callerCandidates\<close> of
  \<^verbatim>\<open>call1\<close> empty. And the accepted snapshot that carries Bob's candidate \<^verbatim>\<open>rc1\<close> leaves her
  connection with no applied candidate.
\<close>

theorem candidates_exchange_counterexample:
  "map pc_callDoc (pcs ringing_world) = [None]
   \<and> map_option callerCandidates
        (store (onicecandidate env_ok (hd (pcs ringing_world)) (Some ''cand1'') ringing_world) ''call1'')
       = Some []
   \<and> receiverCandidates call1_accepted = [''rc1'']
   \<and> map appliedCandidates (pcs connected_world) = [[]]"
  by (simp add: connected_world_def ringing_world_eval onicecandidate_def deliverCallSnapshot_def
      onCallSnapshot_def applyAnswer_def setRemoteDescription_def remoteTransition_def
      call1_accepted_def call1_ringing_def env_ok_def startTimer_def
      setSessionStatus_def update_pc_def)

end
